theory Spec2Isabelle
  imports Main
begin

section \<open>JavaScript values\<close>

text \<open>
  The values that flow through the request builders.  \<open>undefined\<close> is not a constructor:
  a possibly-undefined value is a \<open>jsval option\<close> and \<open>None\<close> is \<open>undefined\<close>, so a property
  holding \<open>undefined\<close> and an absent property are the same thing (both read as \<open>undefined\<close>).
  Numbers are the integral ones (HTTP status codes); \<open>JFun\<close> is a function, known only by an
  identity.  A plain object is an association list from property names to values.
\<close>

datatype jsval =
    JNull
  | JBool bool
  | JNum int
  | JStr string
  | JFun nat
  | JArr "jsval list"
  | JObj "(string \<times> jsval) list"

datatype exn = TypeError | SyntaxError

text \<open>The \<open>typeof\<close> operator.\<close>

fun typeof :: "jsval option \<Rightarrow> string" where
  "typeof None = ''undefined''"
| "typeof (Some JNull) = ''object''"
| "typeof (Some (JBool b)) = ''boolean''"
| "typeof (Some (JNum n)) = ''number''"
| "typeof (Some (JStr s)) = ''string''"
| "typeof (Some (JFun f)) = ''function''"
| "typeof (Some (JArr xs)) = ''object''"
| "typeof (Some (JObj ps)) = ''object''"

text \<open>Truthiness, as tested by \<open>if (v)\<close>, \<open>v || w\<close> and \<open>v && w\<close>.\<close>

fun truthy :: "jsval option \<Rightarrow> bool" where
  "truthy None = False"
| "truthy (Some JNull) = False"
| "truthy (Some (JBool b)) = b"
| "truthy (Some (JNum n)) = (n \<noteq> 0)"
| "truthy (Some (JStr s)) = (s \<noteq> [])"
| "truthy (Some (JFun f)) = True"
| "truthy (Some (JArr xs)) = True"
| "truthy (Some (JObj ps)) = True"

text \<open>
  Reading a property \<open>v.name\<close>.  On \<open>undefined\<close> and \<open>null\<close> it throws a TypeError; on a plain
  object it is the lookup; every other value has none of the properties this program reads
  (\<open>status\<close>, \<open>payload\<close>, \<open>host\<close>, \<open>restApiVersion\<close>, \<open>parameters\<close>, and \<open>name\<close> behind a
  \<open>typeof v === 'object'\<close> test), so the result is \<open>undefined\<close>.
\<close>

fun get_prop :: "jsval option \<Rightarrow> string \<Rightarrow> exn + jsval option" where
  "get_prop None name = Inl TypeError"
| "get_prop (Some JNull) name = Inl TypeError"
| "get_prop (Some (JObj ps)) name = Inr (map_of ps name)"
| "get_prop (Some v) name = Inr None"


section \<open>Deep merge of option objects\<close>

text \<open>
  Every operation starts with \<open>extend(true, {}, this.options, options || {})\<close>.  The pieces
  of that call come first: the property write, and the target's own object or array.
\<close>

text \<open>
  \<open>target[name] = v\<close>: an existing property keeps its place, a new one goes last.
  (JavaScript lists integer-like names first, in ascending order; the order of the names is
  not modelled beyond this, and no property read depends on it.)
\<close>

fun set_prop :: "(string \<times> 'v) list \<Rightarrow> string \<Rightarrow> 'v \<Rightarrow> (string \<times> 'v) list" where
  "set_prop [] name v = [(name, v)]"
| "set_prop ((k, w) # ps) name v =
     (if k = name then (k, v) # ps else (k, w) # set_prop ps name v)"

fun plain_props :: "jsval option \<Rightarrow> (string \<times> jsval) list" where
  "plain_props (Some (JObj ps)) = ps"
| "plain_props v = []"

fun array_elems :: "jsval option \<Rightarrow> jsval list" where
  "array_elems (Some (JArr xs)) = xs"
| "array_elems v = []"

text \<open>
  Modelled from the spec: the \<open>extend\<close> function is an npm dependency whose code is not part of
  the sources; every operation calls it as \<open>extend(true, {}, this.options, options || {})\<close>.
  The spec calls it the deep merge of defaults and per-call overrides, per-call first.  The
  model is the recursive merge of that package: every enumerable property of a source is
  written to the target; a plain object is merged into the target's plain object of the same
  name (or into a new one), an array likewise into an array, and any other value replaces
  the target's.  The package leaves out a property that holds \<open>undefined\<close>, which here is an
  absent property, and a property that is the target itself, which a value here cannot be.
\<close>

fun extend_props ::
    "(string \<times> jsval) list \<Rightarrow> (string \<times> jsval) list \<Rightarrow> (string \<times> jsval) list"
  and extend_elems :: "jsval list \<Rightarrow> jsval list \<Rightarrow> jsval list"
  and extend_value :: "jsval option \<Rightarrow> jsval \<Rightarrow> jsval" where
  "extend_props target [] = target"
| "extend_props target ((name, copy) # rest) =
     extend_props (set_prop target name (extend_value (map_of target name) copy)) rest"
| "extend_elems target [] = target"
| "extend_elems [] (copy # rest) = extend_value None copy # extend_elems [] rest"
| "extend_elems (src # target) (copy # rest) =
     extend_value (Some src) copy # extend_elems target rest"
| "extend_value src (JObj ps) = JObj (extend_props (plain_props src) ps)"
| "extend_value src (JArr xs) = JArr (extend_elems (array_elems src) xs)"
| "extend_value src copy = copy"

text \<open>Decimal numerals, the names of array and string indices.\<close>

fun show_nat :: "nat \<Rightarrow> string" where
  "show_nat n =
     (if n < 10 then [char_of (48 + n)] else show_nat (n div 10) @ [char_of (48 + n mod 10)])"

text \<open>
  The properties a \<open>for (name in source)\<close> loop visits: those of a plain object, the indices
  of an array or of a string, and none for the other values.
\<close>

fun enumerable :: "jsval option \<Rightarrow> (string \<times> jsval) list" where
  "enumerable (Some (JObj ps)) = ps"
| "enumerable (Some (JArr xs)) = zip (map show_nat [0 ..< length xs]) xs"
| "enumerable (Some (JStr s)) = zip (map show_nat [0 ..< length s]) (map (\<lambda>c. JStr [c]) s)"
| "enumerable v = []"

text \<open>
  Modelled from the spec: the whole call \<open>extend(true, {}, source1, source2, ...)\<close> of the
  package, each source merged in turn into the new target.
\<close>

definition extend_deep ::
  "jsval option list \<Rightarrow> (string \<times> jsval) list" where
  "extend_deep sources = foldl (\<lambda>target source. extend_props target (enumerable source)) [] sources"

text \<open>\<open>options || {}\<close>.\<close>

definition or_empty :: "jsval option \<Rightarrow> jsval option" where
  "or_empty options = (if truthy options then options else Some (JObj []))"

text \<open>The first statement of every operation: \<open>extend(true, {}, this.options, options || {})\<close>.\<close>

definition merge_options ::
  "jsval option \<Rightarrow> jsval option \<Rightarrow> (string \<times> jsval) list" where
  "merge_options this_options options = extend_deep [this_options, or_empty options]"


section \<open>Requests and their completion\<close>

text \<open>
  The object handed to \<open>makeRequest\<close>.  \<open>http_method\<close> is its \<open>method\<close> property; \<open>url\<close> holds the arguments of \<open>urljoin\<close> in order
  (the joining itself belongs to another package); \<open>body\<close> is the result of \<open>toString\<close>.
\<close>

record request_data =
  http_method :: string
  url :: "jsval option list"
  headers :: "(string \<times> string) list option"
  qs :: "jsval option"
  body :: "string option"
  json :: "jsval option"

text \<open>
  Modelled from the spec: \<open>makeRequest\<close> is defined in \<open>common.js\<close>, which is not part of the
  sources.  The spec gives it as the primitive \<open>makeRequest(requestConfig, callback, options)\<close>
  that performs the HTTP call and hands a decoded \<open>(error, response)\<close> pair to the callback.
  It is a parameter here: any function from the request and the options to that pair.
  \<open>JSON.parse\<close> and \<open>toString\<close> are built-ins and parameters as well.
\<close>

record env =
  makeRequest :: "request_data \<Rightarrow> jsval \<Rightarrow> jsval option \<times> jsval option"
  JSON_parse :: "jsval option \<Rightarrow> exn + jsval"
  toString :: "jsval \<Rightarrow> string"

text \<open>What happens to the caller's callback: not invoked, or invoked with these arguments.\<close>

datatype outcome = NotCalled | Called "jsval option list"

text \<open>
  One run of an operation, once \<open>makeRequest\<close> has been called: the request and the options
  it was given, and what its completion did (an exception thrown inside the completion
  function is \<open>Inl\<close>).  An exception thrown before the call is the \<open>Inl\<close> of the operation.
\<close>

record sent =
  sent_request :: request_data
  sent_options :: "(string \<times> jsval) list"
  completion :: "exn + outcome"

definition send ::
  "env \<Rightarrow> request_data \<Rightarrow> (string \<times> jsval) list \<Rightarrow>
   (jsval option \<Rightarrow> jsval option \<Rightarrow> exn + outcome) \<Rightarrow> sent" where
  "send env requestData options on_response =
     (case makeRequest env requestData (JObj options) of
        (error, data) \<Rightarrow>
          \<lparr>sent_request = requestData, sent_options = options,
           completion = on_response error data\<rparr>)"

text \<open>\<open>if (typeof endpoint === 'object' && endpoint.name) endpoint = endpoint.name;\<close>\<close>

definition endpoint_name :: "jsval option \<Rightarrow> exn + jsval option" where
  "endpoint_name endpoint =
     (if typeof endpoint = ''object'' then
        (case get_prop endpoint ''name'' of
           Inl x \<Rightarrow> Inl x
         | Inr name \<Rightarrow> Inr (if truthy name then name else endpoint))
      else Inr endpoint)"

text \<open>\<open>value.toString()\<close>\<close>

definition value_toString :: "env \<Rightarrow> jsval option \<Rightarrow> exn + string" where
  "value_toString env v =
     (case v of None \<Rightarrow> Inl TypeError | Some JNull \<Rightarrow> Inl TypeError | Some w \<Rightarrow> Inr (toString env w))"


section \<open>The subscription operations (\<open>lib/subscriptions.js\<close>)\<close>

text \<open>
  Each operation is given as the source has it: the merge of the options, the request
  object, and the function passed to \<open>makeRequest\<close> (here \<open>_response\<close>), which decides what
  the caller's \<open>callback\<close> receives.  \<open>this_options\<close> is \<open>this.options\<close>.
\<close>

subsection \<open>\<open>getResourceSubscription\<close>\<close>

definition getResourceSubscription_request ::
  "(string \<times> jsval) list \<Rightarrow> jsval option \<Rightarrow> jsval option \<Rightarrow> request_data" where
  "getResourceSubscription_request options endpoint resource =
     \<lparr>http_method = ''GET'',
      url = [map_of options ''host'', map_of options ''restApiVersion'',
             Some (JStr ''subscriptions''), endpoint, resource],
      headers = None, qs = None, body = None, json = None\<rparr>"

definition getResourceSubscription_response ::
  "jsval option \<Rightarrow> jsval option \<Rightarrow> jsval option \<Rightarrow> exn + outcome" where
  "getResourceSubscription_response callback error data =
     (if typeof callback = ''function'' then
        (if truthy error then
           (case get_prop error ''status'' of
              Inl x \<Rightarrow> Inl x
            | Inr status \<Rightarrow>
                (if status = Some (JNum 404) then Inr (Called [Some JNull, Some (JBool False)])
                 else Inr (Called [error])))
         else Inr (Called [Some JNull, Some (JBool True)]))
      else Inr NotCalled)"

definition getResourceSubscription ::
  "env \<Rightarrow> jsval option \<Rightarrow> jsval option \<Rightarrow> jsval option \<Rightarrow> jsval option \<Rightarrow>
   jsval option \<Rightarrow> exn + sent" where
  "getResourceSubscription env this_options endpoint resource options callback =
     (let options = merge_options this_options options
      in Inr (send env (getResourceSubscription_request options endpoint resource) options
                (getResourceSubscription_response callback)))"

subsection \<open>\<open>putResourceSubscription\<close>\<close>

definition putResourceSubscription_request ::
  "(string \<times> jsval) list \<Rightarrow> jsval option \<Rightarrow> jsval option \<Rightarrow> request_data" where
  "putResourceSubscription_request options endpoint resource =
     \<lparr>http_method = ''PUT'',
      url = [map_of options ''host'', map_of options ''restApiVersion'',
             Some (JStr ''subscriptions''), endpoint, resource],
      headers = Some [(''accept'', ''application/json'')], qs = None, body = None, json = None\<rparr>"

definition putResourceSubscription_response ::
  "jsval option \<Rightarrow> jsval option \<Rightarrow> jsval option \<Rightarrow> exn + outcome" where
  "putResourceSubscription_response callback error data =
     (if typeof callback = ''function'' then
        (if truthy error then Inr (Called [error])
         else Inr (Called [Some JNull]))
      else Inr NotCalled)"

definition putResourceSubscription ::
  "env \<Rightarrow> jsval option \<Rightarrow> jsval option \<Rightarrow> jsval option \<Rightarrow> jsval option \<Rightarrow>
   jsval option \<Rightarrow> exn + sent" where
  "putResourceSubscription env this_options endpoint resource options callback =
     (let options = merge_options this_options options
      in Inr (send env (putResourceSubscription_request options endpoint resource) options
                (putResourceSubscription_response callback)))"

subsection \<open>\<open>deleteResourceSubscription\<close>\<close>

definition deleteResourceSubscription_request ::
  "(string \<times> jsval) list \<Rightarrow> jsval option \<Rightarrow> jsval option \<Rightarrow> request_data" where
  "deleteResourceSubscription_request options endpoint resource =
     \<lparr>http_method = ''DELETE'',
      url = [map_of options ''host'', map_of options ''restApiVersion'',
             Some (JStr ''subscriptions''), endpoint, resource],
      headers = Some [(''accept'', ''application/json'')], qs = None, body = None, json = None\<rparr>"

text \<open>\<open>error && error.status !== 404\<close>: the property is read only when \<open>error\<close> is truthy.\<close>

definition deleteResourceSubscription_response ::
  "jsval option \<Rightarrow> jsval option \<Rightarrow> jsval option \<Rightarrow> exn + outcome" where
  "deleteResourceSubscription_response callback error data =
     (if typeof callback = ''function'' then
        (if truthy error then
           (case get_prop error ''status'' of
              Inl x \<Rightarrow> Inl x
            | Inr status \<Rightarrow>
                (if status \<noteq> Some (JNum 404) then Inr (Called [error])
                 else Inr (Called [])))
         else Inr (Called []))
      else Inr NotCalled)"

definition deleteResourceSubscription ::
  "env \<Rightarrow> jsval option \<Rightarrow> jsval option \<Rightarrow> jsval option \<Rightarrow> jsval option \<Rightarrow>
   jsval option \<Rightarrow> exn + sent" where
  "deleteResourceSubscription env this_options endpoint resource options callback =
     (let options = merge_options this_options options
      in Inr (send env (deleteResourceSubscription_request options endpoint resource) options
                (deleteResourceSubscription_response callback)))"

subsection \<open>\<open>getEndpointSubscriptions\<close>\<close>

definition getEndpointSubscriptions_request ::
  "(string \<times> jsval) list \<Rightarrow> jsval option \<Rightarrow> request_data" where
  "getEndpointSubscriptions_request options endpoint =
     \<lparr>http_method = ''GET'',
      url = [map_of options ''host'', map_of options ''restApiVersion'',
             Some (JStr ''subscriptions''), endpoint],
      headers = Some [(''accept'', ''text/uri-list'')], qs = None, body = None, json = None\<rparr>"

text \<open>\<open>payload.replace(/\n$/, '')\<close>: without the \<open>m\<close> flag \<open>$\<close> is the end of the string.\<close>

definition trim_last_newline :: "string \<Rightarrow> string" where
  "trim_last_newline s = (if s \<noteq> [] \<and> last s = CHR 0x0A then butlast s else s)"

text \<open>\<open>s.split(/\n/)\<close>: the pieces between the newlines; the empty string gives one piece.\<close>

fun split_newline :: "string \<Rightarrow> string list" where
  "split_newline [] = [[]]"
| "split_newline (c # cs) =
     (if c = CHR 0x0A then [] # split_newline cs
      else (case split_newline cs of
              [] \<Rightarrow> [[c]]
            | piece # pieces \<Rightarrow> (c # piece) # pieces))"

text \<open>
  A payload that is not a string has no \<open>replace\<close> method, and reading \<open>payload\<close> from a
  missing \<open>data\<close> fails: both throw a TypeError.
\<close>

definition getEndpointSubscriptions_response ::
  "jsval option \<Rightarrow> jsval option \<Rightarrow> jsval option \<Rightarrow> exn + outcome" where
  "getEndpointSubscriptions_response callback error data =
     (if typeof callback = ''function'' then
        (if truthy error then
           (case get_prop error ''status'' of
              Inl x \<Rightarrow> Inl x
            | Inr status \<Rightarrow>
                (if status = Some (JNum 404) then Inr (Called [Some JNull, Some (JArr [])])
                 else Inr (Called [error])))
         else
           (case get_prop data ''payload'' of
              Inl x \<Rightarrow> Inl x
            | Inr (Some (JStr payload)) \<Rightarrow>
                (let uriListString = trim_last_newline payload
                 in Inr (Called [Some JNull, Some (JArr (map JStr (split_newline uriListString)))]))
            | Inr other \<Rightarrow> Inl TypeError))
      else Inr NotCalled)"

definition getEndpointSubscriptions ::
  "env \<Rightarrow> jsval option \<Rightarrow> jsval option \<Rightarrow> jsval option \<Rightarrow> jsval option \<Rightarrow> exn + sent" where
  "getEndpointSubscriptions env this_options endpoint options callback =
     (let options = merge_options this_options options
      in Inr (send env (getEndpointSubscriptions_request options endpoint) options
                (getEndpointSubscriptions_response callback)))"

subsection \<open>\<open>deleteEndpointSubscriptions\<close>\<close>

definition deleteEndpointSubscriptions_request ::
  "(string \<times> jsval) list \<Rightarrow> jsval option \<Rightarrow> request_data" where
  "deleteEndpointSubscriptions_request options endpoint =
     \<lparr>http_method = ''DELETE'',
      url = [map_of options ''host'', map_of options ''restApiVersion'',
             Some (JStr ''subscriptions''), endpoint],
      headers = Some [(''accept'', ''application/json'')], qs = None, body = None, json = None\<rparr>"

definition deleteEndpointSubscriptions_response ::
  "jsval option \<Rightarrow> jsval option \<Rightarrow> jsval option \<Rightarrow> exn + outcome" where
  "deleteEndpointSubscriptions_response callback error data =
     (if typeof callback = ''function'' then
        (if truthy error then
           (case get_prop error ''status'' of
              Inl x \<Rightarrow> Inl x
            | Inr status \<Rightarrow>
                (if status = Some (JNum 404) then Inr (Called [Some JNull, Some (JBool False)])
                 else Inr (Called [error])))
         else Inr (Called [Some JNull]))
      else Inr NotCalled)"

definition deleteEndpointSubscriptions ::
  "env \<Rightarrow> jsval option \<Rightarrow> jsval option \<Rightarrow> jsval option \<Rightarrow> jsval option \<Rightarrow> exn + sent" where
  "deleteEndpointSubscriptions env this_options endpoint options callback =
     (let options = merge_options this_options options
      in Inr (send env (deleteEndpointSubscriptions_request options endpoint) options
                (deleteEndpointSubscriptions_response callback)))"

subsection \<open>\<open>deleteAllSubscriptions\<close>\<close>

definition deleteAllSubscriptions_request :: "(string \<times> jsval) list \<Rightarrow> request_data" where
  "deleteAllSubscriptions_request options =
     \<lparr>http_method = ''DELETE'',
      url = [map_of options ''host'', map_of options ''restApiVersion'',
             Some (JStr ''subscriptions'')],
      headers = Some [(''accept'', ''application/json'')], qs = None, body = None, json = None\<rparr>"

definition deleteAllSubscriptions_response ::
  "jsval option \<Rightarrow> jsval option \<Rightarrow> jsval option \<Rightarrow> exn + outcome" where
  "deleteAllSubscriptions_response callback error data =
     (if typeof callback = ''function'' then
        (if truthy error then Inr (Called [error])
         else Inr (Called [Some JNull]))
      else Inr NotCalled)"

definition deleteAllSubscriptions ::
  "env \<Rightarrow> jsval option \<Rightarrow> jsval option \<Rightarrow> jsval option \<Rightarrow> exn + sent" where
  "deleteAllSubscriptions env this_options options callback =
     (let options = merge_options this_options options
      in Inr (send env (deleteAllSubscriptions_request options) options
                (deleteAllSubscriptions_response callback)))"

subsection \<open>\<open>getPreSubscription\<close>\<close>

definition getPreSubscription_request :: "(string \<times> jsval) list \<Rightarrow> request_data" where
  "getPreSubscription_request options =
     \<lparr>http_method = ''GET'',
      url = [map_of options ''host'', map_of options ''restApiVersion'',
             Some (JStr ''subscriptions'')],
      headers = Some [(''accept'', ''application/json'')], qs = None, body = None, json = None\<rparr>"

definition getPreSubscription_response ::
  "env \<Rightarrow> jsval option \<Rightarrow> jsval option \<Rightarrow> jsval option \<Rightarrow> exn + outcome" where
  "getPreSubscription_response env callback error data =
     (if typeof callback = ''function'' then
        (if truthy error then Inr (Called [error])
         else
           (case get_prop data ''payload'' of
              Inl x \<Rightarrow> Inl x
            | Inr payload \<Rightarrow>
                (case JSON_parse env payload of
                   Inl x \<Rightarrow> Inl x
                 | Inr parsed \<Rightarrow> Inr (Called [Some JNull, Some parsed]))))
      else Inr NotCalled)"

definition getPreSubscription ::
  "env \<Rightarrow> jsval option \<Rightarrow> jsval option \<Rightarrow> jsval option \<Rightarrow> exn + sent" where
  "getPreSubscription env this_options options callback =
     (let options = merge_options this_options options
      in Inr (send env (getPreSubscription_request options) options
                (getPreSubscription_response env callback)))"

subsection \<open>\<open>putPreSubscription\<close>\<close>

definition putPreSubscription_request ::
  "(string \<times> jsval) list \<Rightarrow> jsval option \<Rightarrow> request_data" where
  "putPreSubscription_request options data =
     \<lparr>http_method = ''PUT'',
      url = [map_of options ''host'', map_of options ''restApiVersion'',
             Some (JStr ''subscriptions'')],
      headers = None, qs = None, body = None, json = data\<rparr>"

definition putPreSubscription_response ::
  "jsval option \<Rightarrow> jsval option \<Rightarrow> jsval option \<Rightarrow> exn + outcome" where
  "putPreSubscription_response callback error data =
     (if typeof callback = ''function'' then
        (if truthy error then Inr (Called [error])
         else Inr (Called [Some JNull]))
      else Inr NotCalled)"

definition putPreSubscription ::
  "env \<Rightarrow> jsval option \<Rightarrow> jsval option \<Rightarrow> jsval option \<Rightarrow> jsval option \<Rightarrow> exn + sent" where
  "putPreSubscription env this_options data options callback =
     (let options = merge_options this_options options
      in Inr (send env (putPreSubscription_request options data) options
                (putPreSubscription_response callback)))"


section \<open>The endpoint operations\<close>

subsection \<open>\<open>getEndpoints\<close>\<close>

text \<open>\<open>if (typeof options === 'string') options = { parameters: { type: options } };\<close>\<close>

definition getEndpoints_options :: "jsval option \<Rightarrow> jsval option" where
  "getEndpoints_options options =
     (if typeof options = ''string'' then
        (case options of
           Some filter_type \<Rightarrow> Some (JObj [(''parameters'', JObj [(''type'', filter_type)])])
         | None \<Rightarrow> options)
      else options)"

definition getEndpoints_request :: "(string \<times> jsval) list \<Rightarrow> request_data" where
  "getEndpoints_request options =
     (let requestData =
        \<lparr>http_method = ''GET'',
         url = [map_of options ''host'', map_of options ''restApiVersion'', Some (JStr ''endpoints'')],
         headers = Some [(''accept'', ''application/json'')], qs = None, body = None, json = None\<rparr>
      in if truthy (map_of options ''parameters'')
         then requestData\<lparr>qs := map_of options ''parameters''\<rparr>
         else requestData)"

definition getEndpoints_response ::
  "env \<Rightarrow> jsval option \<Rightarrow> jsval option \<Rightarrow> jsval option \<Rightarrow> exn + outcome" where
  "getEndpoints_response env callback error data =
     (if typeof callback = ''function'' then
        (if truthy error then Inr (Called [error])
         else
           (case get_prop data ''payload'' of
              Inl x \<Rightarrow> Inl x
            | Inr payload \<Rightarrow>
                (case JSON_parse env payload of
                   Inl x \<Rightarrow> Inl x
                 | Inr parsed \<Rightarrow> Inr (Called [Some JNull, Some parsed]))))
      else Inr NotCalled)"

definition getEndpoints ::
  "env \<Rightarrow> jsval option \<Rightarrow> jsval option \<Rightarrow> jsval option \<Rightarrow> exn + sent" where
  "getEndpoints env this_options options callback =
     (let options = getEndpoints_options options;
          options = merge_options this_options options
      in Inr (send env (getEndpoints_request options) options
                (getEndpoints_response env callback)))"

subsection \<open>\<open>getResources\<close>\<close>

definition getResources_request ::
  "(string \<times> jsval) list \<Rightarrow> jsval option \<Rightarrow> request_data" where
  "getResources_request options endpoint =
     \<lparr>http_method = ''GET'',
      url = [map_of options ''host'', map_of options ''restApiVersion'', Some (JStr ''endpoints''),
             endpoint],
      headers = Some [(''accept'', ''application/json'')], qs = None, body = None, json = None\<rparr>"

definition getResources_response ::
  "env \<Rightarrow> jsval option \<Rightarrow> jsval option \<Rightarrow> jsval option \<Rightarrow> exn + outcome" where
  "getResources_response env callback error data =
     (if typeof callback = ''function'' then
        (if truthy error then Inr (Called [error])
         else
           (case get_prop data ''payload'' of
              Inl x \<Rightarrow> Inl x
            | Inr payload \<Rightarrow>
                (case JSON_parse env payload of
                   Inl x \<Rightarrow> Inl x
                 | Inr parsed \<Rightarrow> Inr (Called [Some JNull, Some parsed]))))
      else Inr NotCalled)"

definition getResources ::
  "env \<Rightarrow> jsval option \<Rightarrow> jsval option \<Rightarrow> jsval option \<Rightarrow> jsval option \<Rightarrow> exn + sent" where
  "getResources env this_options endpoint options callback =
     (case endpoint_name endpoint of
        Inl x \<Rightarrow> Inl x
      | Inr endpoint \<Rightarrow>
          (let options = merge_options this_options options
           in Inr (send env (getResources_request options endpoint) options
                     (getResources_response env callback))))"

subsection \<open>\<open>getResourceValue\<close>\<close>

definition getResourceValue_request ::
  "(string \<times> jsval) list \<Rightarrow> jsval option \<Rightarrow> jsval option \<Rightarrow> request_data" where
  "getResourceValue_request options endpoint resource =
     \<lparr>http_method = ''GET'',
      url = [map_of options ''host'', map_of options ''restApiVersion'', Some (JStr ''endpoints''),
             endpoint, resource],
      headers = Some [(''accept'', ''*/*'')], qs = map_of options ''parameters'',
      body = None, json = None\<rparr>"

definition getResourceValue_response ::
  "jsval option \<Rightarrow> jsval option \<Rightarrow> jsval option \<Rightarrow> exn + outcome" where
  "getResourceValue_response callback error data =
     (if typeof callback = ''function'' then
        (if truthy error then Inr (Called [error])
         else
           (case get_prop data ''payload'' of
              Inl x \<Rightarrow> Inl x
            | Inr payload \<Rightarrow> Inr (Called [Some JNull, payload])))
      else Inr NotCalled)"

definition getResourceValue ::
  "env \<Rightarrow> jsval option \<Rightarrow> jsval option \<Rightarrow> jsval option \<Rightarrow> jsval option \<Rightarrow> jsval option \<Rightarrow>
   exn + sent" where
  "getResourceValue env this_options endpoint resource options callback =
     (case endpoint_name endpoint of
        Inl x \<Rightarrow> Inl x
      | Inr endpoint \<Rightarrow>
          (let options = merge_options this_options options
           in Inr (send env (getResourceValue_request options endpoint resource) options
                     (getResourceValue_response callback))))"

subsection \<open>\<open>putResourceValue\<close>\<close>

definition putResourceValue_request ::
  "(string \<times> jsval) list \<Rightarrow> jsval option \<Rightarrow> jsval option \<Rightarrow> string \<Rightarrow> request_data" where
  "putResourceValue_request options endpoint resource value_string =
     \<lparr>http_method = ''PUT'',
      url = [map_of options ''host'', map_of options ''restApiVersion'', Some (JStr ''endpoints''),
             endpoint, resource],
      headers = Some [(''accept'', ''application/json'')], qs = map_of options ''parameters'',
      body = Some value_string, json = None\<rparr>"

definition putResourceValue_response ::
  "jsval option \<Rightarrow> jsval option \<Rightarrow> jsval option \<Rightarrow> exn + outcome" where
  "putResourceValue_response callback error data =
     (if typeof callback = ''function'' then
        (if truthy error then Inr (Called [error])
         else Inr (Called [Some JNull]))
      else Inr NotCalled)"

definition putResourceValue ::
  "env \<Rightarrow> jsval option \<Rightarrow> jsval option \<Rightarrow> jsval option \<Rightarrow> jsval option \<Rightarrow> jsval option \<Rightarrow>
   jsval option \<Rightarrow> exn + sent" where
  "putResourceValue env this_options endpoint resource val options callback =
     (case endpoint_name endpoint of
        Inl x \<Rightarrow> Inl x
      | Inr endpoint \<Rightarrow>
          (let options = merge_options this_options options
           in case value_toString env val of
                Inl x \<Rightarrow> Inl x
              | Inr value_string \<Rightarrow>
                  Inr (send env (putResourceValue_request options endpoint resource value_string)
                         options (putResourceValue_response callback))))"

subsection \<open>\<open>postResource\<close>\<close>

definition postResource_request ::
  "env \<Rightarrow> (string \<times> jsval) list \<Rightarrow> jsval option \<Rightarrow> jsval option \<Rightarrow> jsval option \<Rightarrow>
   exn + request_data" where
  "postResource_request env options endpoint resource val =
     (let requestData =
        \<lparr>http_method = ''POST'',
         url = [map_of options ''host'', map_of options ''restApiVersion'', Some (JStr ''endpoints''),
                endpoint, resource],
         headers = Some [(''accept'', ''application/json'')], qs = map_of options ''parameters'',
         body = None, json = None\<rparr>
      in if truthy val then
           (case value_toString env val of
              Inl x \<Rightarrow> Inl x
            | Inr value_string \<Rightarrow> Inr (requestData\<lparr>body := Some value_string\<rparr>))
         else Inr requestData)"

definition postResource_response ::
  "jsval option \<Rightarrow> jsval option \<Rightarrow> jsval option \<Rightarrow> exn + outcome" where
  "postResource_response callback error data =
     (if typeof callback = ''function'' then
        (if truthy error then Inr (Called [error])
         else Inr (Called [Some JNull]))
      else Inr NotCalled)"

definition postResource ::
  "env \<Rightarrow> jsval option \<Rightarrow> jsval option \<Rightarrow> jsval option \<Rightarrow> jsval option \<Rightarrow> jsval option \<Rightarrow>
   jsval option \<Rightarrow> exn + sent" where
  "postResource env this_options endpoint resource val options callback =
     (case endpoint_name endpoint of
        Inl x \<Rightarrow> Inl x
      | Inr endpoint \<Rightarrow>
          (let options = merge_options this_options options
           in case postResource_request env options endpoint resource val of
                Inl x \<Rightarrow> Inl x
              | Inr requestData \<Rightarrow>
                  Inr (send env requestData options (postResource_response callback))))"

subsection \<open>\<open>deleteEndpoint\<close>\<close>

definition deleteEndpoint_request ::
  "(string \<times> jsval) list \<Rightarrow> jsval option \<Rightarrow> request_data" where
  "deleteEndpoint_request options endpoint =
     \<lparr>http_method = ''DELETE'',
      url = [map_of options ''host'', map_of options ''restApiVersion'', Some (JStr ''endpoints''),
             endpoint],
      headers = Some [(''accept'', ''application/json'')], qs = map_of options ''parameters'',
      body = None, json = None\<rparr>"

definition deleteEndpoint_response ::
  "jsval option \<Rightarrow> jsval option \<Rightarrow> jsval option \<Rightarrow> exn + outcome" where
  "deleteEndpoint_response callback error data =
     (if typeof callback = ''function'' then
        (if truthy error then Inr (Called [error])
         else Inr (Called [Some JNull]))
      else Inr NotCalled)"

definition deleteEndpoint ::
  "env \<Rightarrow> jsval option \<Rightarrow> jsval option \<Rightarrow> jsval option \<Rightarrow> jsval option \<Rightarrow> exn + sent" where
  "deleteEndpoint env this_options endpoint options callback =
     (case endpoint_name endpoint of
        Inl x \<Rightarrow> Inl x
      | Inr endpoint \<Rightarrow>
          (let options = merge_options this_options options
           in Inr (send env (deleteEndpoint_request options endpoint) options
                     (deleteEndpoint_response callback))))"


section \<open>The operations as a family\<close>

text \<open>
  The methods of \<open>mbedConnectorApi.prototype\<close> that the sources define, each with its
  arguments other than \<open>options\<close> and \<open>callback\<close> (of type \<open>'v\<close>, the type of values);
  \<open>run\<close> calls the method.
\<close>

datatype 'v operation =
    GetEndpoints
  | GetResources 'v
  | GetResourceValue 'v 'v
  | PutResourceValue 'v 'v 'v
  | PostResource 'v 'v 'v
  | DeleteEndpoint 'v
  | GetResourceSubscription 'v 'v
  | PutResourceSubscription 'v 'v
  | DeleteResourceSubscription 'v 'v
  | GetEndpointSubscriptions 'v
  | DeleteEndpointSubscriptions 'v
  | DeleteAllSubscriptions
  | GetPreSubscription
  | PutPreSubscription 'v

fun run ::
  "env \<Rightarrow> jsval option \<Rightarrow> jsval option operation \<Rightarrow> jsval option \<Rightarrow> jsval option \<Rightarrow>
   exn + sent" where
  "run env this_options GetEndpoints options callback =
     getEndpoints env this_options options callback"
| "run env this_options (GetResources endpoint) options callback =
     getResources env this_options endpoint options callback"
| "run env this_options (GetResourceValue endpoint resource) options callback =
     getResourceValue env this_options endpoint resource options callback"
| "run env this_options (PutResourceValue endpoint resource val) options callback =
     putResourceValue env this_options endpoint resource val options callback"
| "run env this_options (PostResource endpoint resource val) options callback =
     postResource env this_options endpoint resource val options callback"
| "run env this_options (DeleteEndpoint endpoint) options callback =
     deleteEndpoint env this_options endpoint options callback"
| "run env this_options (GetResourceSubscription endpoint resource) options callback =
     getResourceSubscription env this_options endpoint resource options callback"
| "run env this_options (PutResourceSubscription endpoint resource) options callback =
     putResourceSubscription env this_options endpoint resource options callback"
| "run env this_options (DeleteResourceSubscription endpoint resource) options callback =
     deleteResourceSubscription env this_options endpoint resource options callback"
| "run env this_options (GetEndpointSubscriptions endpoint) options callback =
     getEndpointSubscriptions env this_options endpoint options callback"
| "run env this_options (DeleteEndpointSubscriptions endpoint) options callback =
     deleteEndpointSubscriptions env this_options endpoint options callback"
| "run env this_options DeleteAllSubscriptions options callback =
     deleteAllSubscriptions env this_options options callback"
| "run env this_options GetPreSubscription options callback =
     getPreSubscription env this_options options callback"
| "run env this_options (PutPreSubscription data) options callback =
     putPreSubscription env this_options data options callback"

text \<open>The operations whose completion function tests \<open>error.status\<close> against 404.\<close>

fun handles_404 :: "'v operation \<Rightarrow> bool" where
  "handles_404 (GetResourceSubscription endpoint resource) = True"
| "handles_404 (DeleteResourceSubscription endpoint resource) = True"
| "handles_404 (GetEndpointSubscriptions endpoint) = True"
| "handles_404 (DeleteEndpointSubscriptions endpoint) = True"
| "handles_404 operation = False"

text \<open>What reached the callback in a run, an exception at either stage being \<open>Inl\<close>.\<close>

fun outcome_of :: "exn + sent \<Rightarrow> exn + outcome" where
  "outcome_of (Inl x) = Inl x"
| "outcome_of (Inr s) = completion s"


text \<open>The function each operation passes to \<open>makeRequest\<close>.\<close>

fun on_response ::
  "env \<Rightarrow> jsval option operation \<Rightarrow> jsval option \<Rightarrow> jsval option \<Rightarrow> jsval option \<Rightarrow>
   exn + outcome" where
  "on_response env GetEndpoints = getEndpoints_response env"
| "on_response env (GetResources endpoint) = getResources_response env"
| "on_response env (GetResourceValue endpoint resource) = getResourceValue_response"
| "on_response env (PutResourceValue endpoint resource val) = putResourceValue_response"
| "on_response env (PostResource endpoint resource val) = postResource_response"
| "on_response env (DeleteEndpoint endpoint) = deleteEndpoint_response"
| "on_response env (GetResourceSubscription endpoint resource) = getResourceSubscription_response"
| "on_response env (PutResourceSubscription endpoint resource) = putResourceSubscription_response"
| "on_response env (DeleteResourceSubscription endpoint resource) =
     deleteResourceSubscription_response"
| "on_response env (GetEndpointSubscriptions endpoint) = getEndpointSubscriptions_response"
| "on_response env (DeleteEndpointSubscriptions endpoint) = deleteEndpointSubscriptions_response"
| "on_response env DeleteAllSubscriptions = deleteAllSubscriptions_response"
| "on_response env GetPreSubscription = getPreSubscription_response env"
| "on_response env (PutPreSubscription data) = putPreSubscription_response"


section \<open>The pending-request correlator\<close>

text \<open>
  Modelled from the spec: the table of pending asynchronous requests is kept by
  \<open>common.js\<close>, which is not part of the sources.  The spec's contract is:
  \<open>register(token, callback)\<close> stores a pending entry; \<open>resolve(token, result)\<close> removes and
  invokes the stored callback with the result; \<open>resolve\<close> on an unknown token is a no-op.
  The state holds the table and, in order, the invocations made so far (the callback, known
  by its identity, and the result it was given).
\<close>

record correlator =
  pending :: "string \<rightharpoonup> nat"
  invoked :: "(nat \<times> jsval option) list"

definition register ::
  "string \<Rightarrow> nat \<Rightarrow> correlator \<Rightarrow> correlator" where
  "register token callback c = c\<lparr>pending := (pending c)(token \<mapsto> callback)\<rparr>"

definition resolve ::
  "string \<Rightarrow> jsval option \<Rightarrow> correlator \<Rightarrow> correlator" where
  "resolve token result c =
     (case pending c token of
        None \<Rightarrow> c
      | Some callback \<Rightarrow>
          c\<lparr>pending := (pending c)(token := None), invoked := invoked c @ [(callback, result)]\<rparr>)"

section \<open>The operations on a store of objects\<close>

text \<open>
  Whether an operation changes \<open>this.options\<close> depends on which objects it writes to, so
  here objects live in a store: an object is known by its address, a value is a primitive or
  a reference, and the store is the list of all objects (the address is the index; a new
  object goes last).  An array is an object whose property names are its indices.
\<close>

datatype hval = HUndefined | HNull | HBool bool | HNum int | HStr string | HRef nat

datatype kind = Plain | Array | Function | Other

record hobj =
  kind :: kind
  props :: "(string \<times> hval) list"

type_synonym heap = "hobj list"

text \<open>An object or function literal.\<close>

definition new_object ::
  "heap \<Rightarrow> kind \<Rightarrow> (string \<times> hval) list \<Rightarrow> heap \<times> nat" where
  "new_object h k ps = (h @ [\<lparr>kind = k, props = ps\<rparr>], length h)"

fun is_kind :: "heap \<Rightarrow> kind \<Rightarrow> hval \<Rightarrow> bool" where
  "is_kind h k (HRef a) = (a < length h \<and> kind (h ! a) = k)"
| "is_kind h k v = False"

fun h_truthy :: "hval \<Rightarrow> bool" where
  "h_truthy HUndefined = False"
| "h_truthy HNull = False"
| "h_truthy (HBool b) = b"
| "h_truthy (HNum n) = (n \<noteq> 0)"
| "h_truthy (HStr s) = (s \<noteq> [])"
| "h_truthy (HRef a) = True"

fun h_typeof :: "heap \<Rightarrow> hval \<Rightarrow> string" where
  "h_typeof h HUndefined = ''undefined''"
| "h_typeof h HNull = ''object''"
| "h_typeof h (HBool b) = ''boolean''"
| "h_typeof h (HNum n) = ''number''"
| "h_typeof h (HStr s) = ''string''"
| "h_typeof h (HRef a) = (if is_kind h Function (HRef a) then ''function'' else ''object'')"

text \<open>The names a \<open>for (name in v)\<close> loop visits, and the property read \<open>v[name]\<close>.\<close>

fun h_keys :: "heap \<Rightarrow> hval \<Rightarrow> string list" where
  "h_keys h (HRef a) = (if a < length h then map fst (props (h ! a)) else [])"
| "h_keys h (HStr s) = map show_nat [0 ..< length s]"
| "h_keys h v = []"

fun h_get :: "heap \<Rightarrow> hval \<Rightarrow> string \<Rightarrow> hval" where
  "h_get h (HRef a) name =
     (if a < length h then (case map_of (props (h ! a)) name of Some v \<Rightarrow> v | None \<Rightarrow> HUndefined)
      else HUndefined)"
| "h_get h (HStr s) name =
     (case find (\<lambda>i. show_nat i = name) [0 ..< length s] of
        Some i \<Rightarrow> HStr [s ! i]
      | None \<Rightarrow> HUndefined)"
| "h_get h v name = HUndefined"

text \<open>The property write \<open>object[name] = v\<close> on the object at address \<open>a\<close>.\<close>

definition h_set ::
  "heap \<Rightarrow> nat \<Rightarrow> string \<Rightarrow> hval \<Rightarrow> heap" where
  "h_set h a name v =
     (if a < length h then h[a := (h ! a)\<lparr>props := set_prop (props (h ! a)) name v\<rparr>] else h)"

text \<open>
  Modelled from the spec: the package's \<open>clone = src && isPlainObject(src) ? src : {}\<close>, and
  the same with \<open>isArray\<close> and \<open>[]\<close>: the target's own object of the wanted kind if it has
  one, a new object otherwise.
\<close>

fun h_clone :: "heap \<Rightarrow> kind \<Rightarrow> hval \<Rightarrow> heap \<times> nat" where
  "h_clone h k (HRef a) = (if a < length h \<and> kind (h ! a) = k then (h, a) else new_object h k [])"
| "h_clone h k v = new_object h k []"

text \<open>
  Modelled from the spec: \<open>extend(true, target, source)\<close> of the \<open>extend\<close> package, as a
  program on the store.  The loop runs over the names of the source; \<open>copy\<close> is the source's
  value and \<open>src\<close> the target's.  A plain object or an array is merged recursively into
  \<open>clone\<close>, which then becomes the target's property; any other value that is not
  \<open>undefined\<close> is assigned as it is (an object of another kind by reference).  A source that
  contains itself makes the recursion endless; \<open>fuel\<close> bounds its depth, and the result
  \<open>False\<close> is the failed call, with the store as it was left.
\<close>

fun h_extend :: "nat \<Rightarrow> heap \<Rightarrow> nat \<Rightarrow> hval \<Rightarrow> string list \<Rightarrow> heap \<times> bool" where
  "h_extend fuel h target source [] = (h, True)"
| "h_extend fuel h target source (name # names) =
     (let src = h_get h (HRef target) name;
          copy = h_get h source name
      in if copy = HRef target then h_extend fuel h target source names
         else if is_kind h Plain copy \<or> is_kind h Array copy then
           (case fuel of
              0 \<Rightarrow> (h, False)
            | Suc fuel' \<Rightarrow>
                (case h_clone h (if is_kind h Array copy then Array else Plain) src of
                   (h1, clone) \<Rightarrow>
                     (case h_extend fuel' h1 clone copy (h_keys h1 copy) of
                        (h2, ok) \<Rightarrow>
                          if ok
                          then h_extend fuel (h_set h2 target name (HRef clone)) target source names
                          else (h2, False))))
         else if copy \<noteq> HUndefined
         then h_extend fuel (h_set h target name copy) target source names
         else h_extend fuel h target source names)"

text \<open>
  \<open>options = extend(true, {}, this.options, options || {})\<close>, with \<open>this\<close> the address of the
  instance: the new target, then the two sources in turn.  The result is the reference to
  the merged options, or \<open>None\<close> when the merge failed.
\<close>

definition h_merge_options ::
  "nat \<Rightarrow> heap \<Rightarrow> nat \<Rightarrow> hval \<Rightarrow> heap \<times> hval option" where
  "h_merge_options fuel h this options =
     (case new_object h Plain [] of
        (h1, target) \<Rightarrow>
          (let this_options = h_get h1 (HRef this) ''options''
           in case (if h_truthy options then (h1, options)
                    else (case new_object h1 Plain [] of (h2, fresh) \<Rightarrow> (h2, HRef fresh))) of
                (h2, options) \<Rightarrow>
                  (case h_extend fuel h2 target this_options (h_keys h2 this_options) of
                     (h3, ok) \<Rightarrow>
                       if ok then
                         (case h_extend fuel h3 target options (h_keys h3 options) of
                            (h4, ok) \<Rightarrow> (h4, if ok then Some (HRef target) else None))
                       else (h3, None))))"

text \<open>
  The request literal \<open>{method: ..., url: urljoin(options.host, options.restApiVersion, ...),
  ..., headers: {accept: ...}, ...}\<close>.  \<open>urljoin\<close> belongs to another package and is a
  parameter; \<open>before\<close> and \<open>after\<close> are the properties written before and after \<open>headers\<close>.
\<close>

definition h_request ::
  "(hval list \<Rightarrow> string) \<Rightarrow> heap \<Rightarrow> hval \<Rightarrow> string \<Rightarrow> hval list \<Rightarrow> (string \<times> hval) list \<Rightarrow>
   string option \<Rightarrow> (string \<times> hval) list \<Rightarrow> heap \<times> nat" where
  "h_request urljoin h options verb path before accept after =
     (let joined = HStr (urljoin ([h_get h options ''host'', h_get h options ''restApiVersion''] @ path))
      in case accept of
           None \<Rightarrow>
             new_object h Plain ([(''method'', HStr verb), (''url'', joined)] @ before @ after)
         | Some a \<Rightarrow>
             (case new_object h Plain [(''accept'', HStr a)] of
                (h1, accept_headers) \<Rightarrow>
                  new_object h1 Plain
                    ([(''method'', HStr verb), (''url'', joined)] @ before @
                     [(''headers'', HRef accept_headers)] @ after)))"

text \<open>
  The call \<open>this.makeRequest(requestData, function(error, data) {...}, options)\<close>: the
  function is a new object; the result is the store at the call and the three arguments.
\<close>

definition h_makeRequest ::
  "heap \<Rightarrow> nat \<Rightarrow> hval \<Rightarrow> heap \<times> (hval \<times> hval \<times> hval) option" where
  "h_makeRequest h requestData options =
     (case new_object h Function [] of
        (h1, closure) \<Rightarrow> (h1, Some (HRef requestData, HRef closure, options)))"

text \<open>\<open>if (typeof endpoint === 'object' && endpoint.name) endpoint = endpoint.name;\<close>\<close>

definition h_endpoint_name :: "heap \<Rightarrow> hval \<Rightarrow> hval option" where
  "h_endpoint_name h endpoint =
     (if h_typeof h endpoint = ''object'' then
        (if endpoint = HNull then None
         else if h_truthy (h_get h endpoint ''name'') then Some (h_get h endpoint ''name'')
         else Some endpoint)
      else Some endpoint)"


text \<open>The merge of the options followed by the request literal.\<close>

definition h_prepare ::
  "(hval list \<Rightarrow> string) \<Rightarrow> nat \<Rightarrow> heap \<Rightarrow> nat \<Rightarrow> hval \<Rightarrow> string \<Rightarrow> hval list \<Rightarrow> bool \<Rightarrow>
   string option \<Rightarrow> (string \<times> hval) list \<Rightarrow> heap \<times> (nat \<times> hval) option" where
  "h_prepare urljoin fuel h this options verb path with_qs accept after =
     (case h_merge_options fuel h this options of
        (h1, None) \<Rightarrow> (h1, None)
      | (h1, Some options) \<Rightarrow>
          (case h_request urljoin h1 options verb path
                  (if with_qs then [(''qs'', h_get h1 options ''parameters'')] else [])
                  accept after of
             (h2, requestData) \<Rightarrow> (h2, Some (requestData, options))))"

text \<open>An operation that does nothing more between the literal and the call.\<close>

definition h_send ::
  "(hval list \<Rightarrow> string) \<Rightarrow> nat \<Rightarrow> heap \<Rightarrow> nat \<Rightarrow> hval \<Rightarrow> string \<Rightarrow> hval list \<Rightarrow> bool \<Rightarrow>
   string option \<Rightarrow> (string \<times> hval) list \<Rightarrow> heap \<times> (hval \<times> hval \<times> hval) option" where
  "h_send urljoin fuel h this options verb path with_qs accept after =
     (case h_prepare urljoin fuel h this options verb path with_qs accept after of
        (h1, None) \<Rightarrow> (h1, None)
      | (h1, Some (requestData, options)) \<Rightarrow> h_makeRequest h1 requestData options)"

text \<open>
  Every operation up to its call of \<open>makeRequest\<close>: the store it leaves and the arguments
  of the call, or \<open>None\<close> when an exception ended it.  \<open>to_string\<close> is \<open>value.toString()\<close>.
\<close>

fun h_run ::
  "(hval list \<Rightarrow> string) \<Rightarrow> (heap \<Rightarrow> hval \<Rightarrow> string) \<Rightarrow> nat \<Rightarrow> heap \<Rightarrow> nat \<Rightarrow>
   hval operation \<Rightarrow> hval \<Rightarrow> heap \<times> (hval \<times> hval \<times> hval) option" where
  "h_run urljoin to_string fuel h this GetEndpoints options =
     (case (if h_typeof h options = ''string'' then
              (case new_object h Plain [(''type'', options)] of
                 (h1, inner) \<Rightarrow>
                   (case new_object h1 Plain [(''parameters'', HRef inner)] of
                      (h2, outer) \<Rightarrow> (h2, HRef outer)))
            else (h, options)) of
        (h1, options) \<Rightarrow>
          (case h_prepare urljoin fuel h1 this options ''GET'' [HStr ''endpoints''] False
                  (Some ''application/json'') [] of
             (h2, None) \<Rightarrow> (h2, None)
           | (h2, Some (requestData, options)) \<Rightarrow>
               h_makeRequest
                 (if h_truthy (h_get h2 options ''parameters'')
                  then h_set h2 requestData ''qs'' (h_get h2 options ''parameters'')
                  else h2)
                 requestData options))"
| "h_run urljoin to_string fuel h this (GetResources endpoint) options =
     (case h_endpoint_name h endpoint of
        None \<Rightarrow> (h, None)
      | Some endpoint \<Rightarrow>
          h_send urljoin fuel h this options ''GET'' [HStr ''endpoints'', endpoint] False
            (Some ''application/json'') [])"
| "h_run urljoin to_string fuel h this (GetResourceValue endpoint resource) options =
     (case h_endpoint_name h endpoint of
        None \<Rightarrow> (h, None)
      | Some endpoint \<Rightarrow>
          h_send urljoin fuel h this options ''GET'' [HStr ''endpoints'', endpoint, resource] True
            (Some ''*/*'') [])"
| "h_run urljoin to_string fuel h this (PutResourceValue endpoint resource val) options =
     (case h_endpoint_name h endpoint of
        None \<Rightarrow> (h, None)
      | Some endpoint \<Rightarrow>
          (case h_merge_options fuel h this options of
             (h1, None) \<Rightarrow> (h1, None)
           | (h1, Some options) \<Rightarrow>
               (if val = HUndefined \<or> val = HNull then (h1, None)
                else
                  (case h_request urljoin h1 options ''PUT'' [HStr ''endpoints'', endpoint, resource]
                          [(''qs'', h_get h1 options ''parameters'')] (Some ''application/json'')
                          [(''body'', HStr (to_string h1 val))] of
                     (h2, requestData) \<Rightarrow> h_makeRequest h2 requestData options))))"
| "h_run urljoin to_string fuel h this (PostResource endpoint resource val) options =
     (case h_endpoint_name h endpoint of
        None \<Rightarrow> (h, None)
      | Some endpoint \<Rightarrow>
          (case h_prepare urljoin fuel h this options ''POST''
                  [HStr ''endpoints'', endpoint, resource] True (Some ''application/json'') [] of
             (h1, None) \<Rightarrow> (h1, None)
           | (h1, Some (requestData, options)) \<Rightarrow>
               h_makeRequest
                 (if h_truthy val then h_set h1 requestData ''body'' (HStr (to_string h1 val))
                  else h1)
                 requestData options))"
| "h_run urljoin to_string fuel h this (DeleteEndpoint endpoint) options =
     (case h_endpoint_name h endpoint of
        None \<Rightarrow> (h, None)
      | Some endpoint \<Rightarrow>
          h_send urljoin fuel h this options ''DELETE'' [HStr ''endpoints'', endpoint] True
            (Some ''application/json'') [])"
| "h_run urljoin to_string fuel h this (GetResourceSubscription endpoint resource) options =
     h_send urljoin fuel h this options ''GET'' [HStr ''subscriptions'', endpoint, resource] False
       None []"
| "h_run urljoin to_string fuel h this (PutResourceSubscription endpoint resource) options =
     h_send urljoin fuel h this options ''PUT'' [HStr ''subscriptions'', endpoint, resource] False
       (Some ''application/json'') []"
| "h_run urljoin to_string fuel h this (DeleteResourceSubscription endpoint resource) options =
     h_send urljoin fuel h this options ''DELETE'' [HStr ''subscriptions'', endpoint, resource]
       False (Some ''application/json'') []"
| "h_run urljoin to_string fuel h this (GetEndpointSubscriptions endpoint) options =
     h_send urljoin fuel h this options ''GET'' [HStr ''subscriptions'', endpoint] False
       (Some ''text/uri-list'') []"
| "h_run urljoin to_string fuel h this (DeleteEndpointSubscriptions endpoint) options =
     h_send urljoin fuel h this options ''DELETE'' [HStr ''subscriptions'', endpoint] False
       (Some ''application/json'') []"
| "h_run urljoin to_string fuel h this DeleteAllSubscriptions options =
     h_send urljoin fuel h this options ''DELETE'' [HStr ''subscriptions''] False
       (Some ''application/json'') []"
| "h_run urljoin to_string fuel h this GetPreSubscription options =
     h_send urljoin fuel h this options ''GET'' [HStr ''subscriptions''] False
       (Some ''application/json'') []"
| "h_run urljoin to_string fuel h this (PutPreSubscription data) options =
     h_send urljoin fuel h this options ''PUT'' [HStr ''subscriptions''] False None
       [(''json'', data)]"



text \<open>
  The invariant of a merge whose target was created at or after address \<open>n0\<close>: a property
  of an object created since then refers to a plain object or an array only if that one was
  created since then as well (anything older it refers to is of another kind).
\<close>

definition fresh_closed :: "nat \<Rightarrow> heap \<Rightarrow> bool" where
  "fresh_closed n0 h \<longleftrightarrow>
     (\<forall>a name b. n0 \<le> a \<and> a < length h \<and> (name, HRef b) \<in> set (props (h ! a)) \<longrightarrow>
        n0 \<le> b \<or> (b < length h \<and> kind (h ! b) \<noteq> Plain \<and> kind (h ! b) \<noteq> Array))"

section \<open>Properties of the completion functions\<close>

lemma send_fields:
  "sent_request (send env requestData options f) = requestData"
  "sent_options (send env requestData options f) = options"
  "completion (send env requestData options f) =
     f (fst (makeRequest env requestData (JObj options)))
       (snd (makeRequest env requestData (JObj options)))"
  by (simp_all add: send_def split: prod.splits)

lemma status_truthy: "get_prop error ''status'' = Inr (Some v) \<Longrightarrow> truthy error"
  by (cases "(error, ''status'')" rule: get_prop.cases) auto

lemma truthy_get_prop: "truthy error \<Longrightarrow> \<exists>status. get_prop error name = Inr status"
  by (cases "(error, name)" rule: get_prop.cases) auto

lemmas operation_defs =
  getEndpoints_def getResources_def getResourceValue_def putResourceValue_def postResource_def
  deleteEndpoint_def getResourceSubscription_def putResourceSubscription_def
  deleteResourceSubscription_def getEndpointSubscriptions_def deleteEndpointSubscriptions_def
  deleteAllSubscriptions_def getPreSubscription_def putPreSubscription_def

lemmas response_defs =
  getEndpoints_response_def getResources_response_def getResourceValue_response_def
  putResourceValue_response_def postResource_response_def deleteEndpoint_response_def
  getResourceSubscription_response_def putResourceSubscription_response_def
  deleteResourceSubscription_response_def getEndpointSubscriptions_response_def
  deleteEndpointSubscriptions_response_def deleteAllSubscriptions_response_def
  getPreSubscription_response_def putPreSubscription_response_def

text \<open>The completion of a run is the operation's completion function at what \<open>makeRequest\<close> returned.\<close>

lemma run_completion:
  assumes "run env this_options operation options callback = Inr s"
    and "makeRequest env (sent_request s) (JObj (sent_options s)) = (error, data)"
  shows "completion s = on_response env operation callback error data"
  using assms
  by (cases operation) (auto simp: operation_defs Let_def send_fields split: sum.splits)

text \<open>
  C1.  \<open>getResourceSubscription\<close>, for every endpoint, resource and options, with a callback
  that is a function: when \<open>makeRequest\<close> fails with an error whose status is 404 the
  callback receives \<open>(null, false)\<close>; any other error is passed as the first argument; on
  success the callback receives \<open>(null, true)\<close>.
\<close>

theorem getResourceSubscription_not_subscribed:
  assumes "typeof callback = ''function''"
    and "cfg = merge_options this_options options"
    and "makeRequest env (getResourceSubscription_request cfg endpoint resource) (JObj cfg)
           = (error, data)"
  shows "(get_prop error ''status'' = Inr (Some (JNum 404)) \<longrightarrow>
            outcome_of (getResourceSubscription env this_options endpoint resource options callback)
              = Inr (Called [Some JNull, Some (JBool False)])) \<and>
         (truthy error \<and> get_prop error ''status'' \<noteq> Inr (Some (JNum 404)) \<longrightarrow>
            outcome_of (getResourceSubscription env this_options endpoint resource options callback)
              = Inr (Called [error])) \<and>
         (\<not> truthy error \<longrightarrow>
            outcome_of (getResourceSubscription env this_options endpoint resource options callback)
              = Inr (Called [Some JNull, Some (JBool True)]))"
  using assms truthy_get_prop[of error "''status''"] status_truthy[of error]
  by (auto simp: getResourceSubscription_def Let_def send_fields
      getResourceSubscription_response_def)

theorem getResourceSubscription_not_subscribed_witness:
  "outcome_of (getResourceSubscription
      \<lparr>makeRequest = (\<lambda>requestData options. (Some (JObj [(''status'', JNum 404)]), None)),
          JSON_parse = (\<lambda>v. Inl SyntaxError), toString = (\<lambda>v. [])\<rparr>
      (Some (JObj [(''host'', JStr ''https://api.connector.mbed.com'')]))
      (Some (JStr ''dev1'')) (Some (JStr ''/3/0/1'')) None (Some (JFun 0)))
     = Inr (Called [Some JNull, Some (JBool False)]) \<and>
   outcome_of (getResourceSubscription
      \<lparr>makeRequest = (\<lambda>requestData options. (Some (JObj [(''status'', JNum 500)]), None)),
          JSON_parse = (\<lambda>v. Inl SyntaxError), toString = (\<lambda>v. [])\<rparr>
      (Some (JObj [(''host'', JStr ''https://api.connector.mbed.com'')]))
      (Some (JStr ''dev1'')) (Some (JStr ''/3/0/1'')) None (Some (JFun 0)))
     = Inr (Called [Some (JObj [(''status'', JNum 500)])]) \<and>
   outcome_of (getResourceSubscription
      \<lparr>makeRequest = (\<lambda>requestData options. (Some JNull, Some (JObj [(''status'', JNum 200)]))),
          JSON_parse = (\<lambda>v. Inl SyntaxError), toString = (\<lambda>v. [])\<rparr>
      (Some (JObj [(''host'', JStr ''https://api.connector.mbed.com'')]))
      (Some (JStr ''dev1'')) (Some (JStr ''/3/0/1'')) None (Some (JFun 0)))
     = Inr (Called [Some JNull, Some (JBool True)])"
  using getResourceSubscription_not_subscribed
    [where callback = "Some (JFun 0)"
       and this_options = "Some (JObj [(''host'', JStr ''https://api.connector.mbed.com'')])"
       and options = None and endpoint = "Some (JStr ''dev1'')"
       and resource = "Some (JStr ''/3/0/1'')"
       and env = "\<lparr>makeRequest = (\<lambda>requestData options. (Some (JObj [(''status'', JNum 404)]), None)),
          JSON_parse = (\<lambda>v. Inl SyntaxError), toString = (\<lambda>v. [])\<rparr>"
       and error = "Some (JObj [(''status'', JNum 404)])" and data = None]
    getResourceSubscription_not_subscribed
    [where callback = "Some (JFun 0)"
       and this_options = "Some (JObj [(''host'', JStr ''https://api.connector.mbed.com'')])"
       and options = None and endpoint = "Some (JStr ''dev1'')"
       and resource = "Some (JStr ''/3/0/1'')"
       and env = "\<lparr>makeRequest = (\<lambda>requestData options. (Some (JObj [(''status'', JNum 500)]), None)),
          JSON_parse = (\<lambda>v. Inl SyntaxError), toString = (\<lambda>v. [])\<rparr>"
       and error = "Some (JObj [(''status'', JNum 500)])" and data = None]
    getResourceSubscription_not_subscribed
    [where callback = "Some (JFun 0)"
       and this_options = "Some (JObj [(''host'', JStr ''https://api.connector.mbed.com'')])"
       and options = None and endpoint = "Some (JStr ''dev1'')"
       and resource = "Some (JStr ''/3/0/1'')"
       and env = "\<lparr>makeRequest = (\<lambda>requestData options. (Some JNull, Some (JObj [(''status'', JNum 200)]))),
          JSON_parse = (\<lambda>v. Inl SyntaxError), toString = (\<lambda>v. [])\<rparr>"
       and error = "Some JNull" and data = "Some (JObj [(''status'', JNum 200)])"]
  by simp

text \<open>
  C2.  \<open>getEndpointSubscriptions\<close>, for every endpoint and options, with a callback that is a
  function: when \<open>makeRequest\<close> fails with an error whose status is 404 the callback receives
  \<open>(null, [])\<close>; an error with any other status is passed to the callback as the error.
\<close>

theorem getEndpointSubscriptions_no_subscriptions:
  assumes "typeof callback = ''function''"
    and "cfg = merge_options this_options options"
    and "makeRequest env (getEndpointSubscriptions_request cfg endpoint) (JObj cfg) = (error, data)"
  shows "(get_prop error ''status'' = Inr (Some (JNum 404)) \<longrightarrow>
            outcome_of (getEndpointSubscriptions env this_options endpoint options callback)
              = Inr (Called [Some JNull, Some (JArr [])])) \<and>
         (truthy error \<and> get_prop error ''status'' \<noteq> Inr (Some (JNum 404)) \<longrightarrow>
            outcome_of (getEndpointSubscriptions env this_options endpoint options callback)
              = Inr (Called [error]))"
  using assms truthy_get_prop[of error "''status''"] status_truthy[of error]
  by (auto simp: getEndpointSubscriptions_def Let_def send_fields
      getEndpointSubscriptions_response_def)

theorem getEndpointSubscriptions_no_subscriptions_witness:
  "outcome_of (getEndpointSubscriptions
      \<lparr>makeRequest = (\<lambda>requestData options. (Some (JObj [(''status'', JNum 404)]), None)),
          JSON_parse = (\<lambda>v. Inl SyntaxError), toString = (\<lambda>v. [])\<rparr>
      (Some (JObj [(''host'', JStr ''https://api.connector.mbed.com'')]))
      (Some (JStr ''dev1'')) None (Some (JFun 0)))
     = Inr (Called [Some JNull, Some (JArr [])]) \<and>
   outcome_of (getEndpointSubscriptions
      \<lparr>makeRequest = (\<lambda>requestData options. (Some (JObj [(''status'', JNum 500)]), None)),
          JSON_parse = (\<lambda>v. Inl SyntaxError), toString = (\<lambda>v. [])\<rparr>
      (Some (JObj [(''host'', JStr ''https://api.connector.mbed.com'')]))
      (Some (JStr ''dev1'')) None (Some (JFun 0)))
     = Inr (Called [Some (JObj [(''status'', JNum 500)])])"
  using getEndpointSubscriptions_no_subscriptions
    [where callback = "Some (JFun 0)"
       and this_options = "Some (JObj [(''host'', JStr ''https://api.connector.mbed.com'')])"
       and options = None and endpoint = "Some (JStr ''dev1'')"
       and env = "\<lparr>makeRequest = (\<lambda>requestData options. (Some (JObj [(''status'', JNum 404)]), None)),
          JSON_parse = (\<lambda>v. Inl SyntaxError), toString = (\<lambda>v. [])\<rparr>"
       and error = "Some (JObj [(''status'', JNum 404)])" and data = None]
    getEndpointSubscriptions_no_subscriptions
    [where callback = "Some (JFun 0)"
       and this_options = "Some (JObj [(''host'', JStr ''https://api.connector.mbed.com'')])"
       and options = None and endpoint = "Some (JStr ''dev1'')"
       and env = "\<lparr>makeRequest = (\<lambda>requestData options. (Some (JObj [(''status'', JNum 500)]), None)),
          JSON_parse = (\<lambda>v. Inl SyntaxError), toString = (\<lambda>v. [])\<rparr>"
       and error = "Some (JObj [(''status'', JNum 500)])" and data = None]
  by simp

text \<open>
  C6.  For every operation that reaches \<open>makeRequest\<close> and every completion of it, with a
  callback that is a function: an error (a truthy first component) that is not a 404 of one
  of the four operations that test for it is passed to the callback, as its only argument.
\<close>

theorem errors_reach_callback:
  assumes "typeof callback = ''function''"
    and "run env this_options operation options callback = Inr s"
    and "makeRequest env (sent_request s) (JObj (sent_options s)) = (error, data)"
    and "truthy error"
    and "\<not> (handles_404 operation \<and> get_prop error ''status'' = Inr (Some (JNum 404)))"
  shows "completion s = Inr (Called [error])"
proof -
  have c: "completion s = on_response env operation callback error data"
    using assms(2,3) by (rule run_completion)
  obtain status where st: "get_prop error ''status'' = Inr status"
    using truthy_get_prop[OF assms(4)] by blast
  show ?thesis
    using assms(1,4,5) st unfolding c
    by (cases operation) (simp_all add: response_defs)
qed

theorem errors_reach_callback_witness:
  "outcome_of (run
      \<lparr>makeRequest = (\<lambda>requestData options. (Some (JObj [(''status'', JNum 404)]), None)),
       JSON_parse = (\<lambda>v. Inl SyntaxError), toString = (\<lambda>v. [])\<rparr>
      (Some (JObj [(''host'', JStr ''https://api.connector.mbed.com'')]))
      (PutResourceSubscription (Some (JStr ''dev1'')) (Some (JStr ''/3/0/1''))) None (Some (JFun 0)))
     = Inr (Called [Some (JObj [(''status'', JNum 404)])])"
proof -
  let ?env = "\<lparr>makeRequest = (\<lambda>requestData options. (Some (JObj [(''status'', JNum 404)]), None)),
       JSON_parse = (\<lambda>v. Inl SyntaxError), toString = (\<lambda>v. [])\<rparr>"
  let ?this = "Some (JObj [(''host'', JStr ''https://api.connector.mbed.com'')])"
  let ?op = "PutResourceSubscription (Some (JStr ''dev1'')) (Some (JStr ''/3/0/1''))"
  let ?s = "send ?env
      (putResourceSubscription_request (merge_options ?this None) (Some (JStr ''dev1''))
         (Some (JStr ''/3/0/1'')))
      (merge_options ?this None) (putResourceSubscription_response (Some (JFun 0)))"
  have r: "run ?env ?this ?op None (Some (JFun 0)) = Inr ?s"
    by (simp add: putResourceSubscription_def Let_def)
  have "completion ?s = Inr (Called [Some (JObj [(''status'', JNum 404)])])"
    by (rule errors_reach_callback[OF _ r]) simp_all
  then show ?thesis
    unfolding r by simp
qed


section \<open>The correlator\<close>

text \<open>
  C7.  For every token, callback and result: \<open>register\<close> followed by \<open>resolve\<close> invokes the
  callback with the result exactly once (the invocations grow by that one entry) and removes
  the entry; a second \<open>resolve\<close> on the same token, with any result, changes nothing.
\<close>

theorem register_resolve_once:
  "invoked (resolve token result (register token callback c)) = invoked c @ [(callback, result)] \<and>
   pending (resolve token result (register token callback c)) = (pending c)(token := None) \<and>
   resolve token result' (resolve token result (register token callback c))
     = resolve token result (register token callback c)"
  by (simp add: resolve_def register_def)

section \<open>The 404 of each operation\<close>

text \<open>
  C4.  Each operation keeps its own treatment of a 404 from \<open>makeRequest\<close> (callback a
  function): \<open>deleteResourceSubscription\<close> calls back with no argument;
  \<open>getResourceSubscription\<close> and \<open>deleteEndpointSubscriptions\<close> with \<open>(null, false)\<close>;
  \<open>getEndpointSubscriptions\<close> with \<open>(null, [])\<close>; \<open>putResourceSubscription\<close>,
  \<open>deleteAllSubscriptions\<close> and every other operation pass the error on.
\<close>

theorem not_found_per_operation:
  assumes "typeof callback = ''function''"
    and "run env this_options operation options callback = Inr s"
    and "makeRequest env (sent_request s) (JObj (sent_options s)) = (error, data)"
    and "get_prop error ''status'' = Inr (Some (JNum 404))"
  shows "completion s =
     (case operation of
        DeleteResourceSubscription endpoint resource \<Rightarrow> Inr (Called [])
      | GetResourceSubscription endpoint resource \<Rightarrow> Inr (Called [Some JNull, Some (JBool False)])
      | DeleteEndpointSubscriptions endpoint \<Rightarrow> Inr (Called [Some JNull, Some (JBool False)])
      | GetEndpointSubscriptions endpoint \<Rightarrow> Inr (Called [Some JNull, Some (JArr [])])
      | PutResourceSubscription endpoint resource \<Rightarrow> Inr (Called [error])
      | DeleteAllSubscriptions \<Rightarrow> Inr (Called [error])
      | other \<Rightarrow> Inr (Called [error]))"
proof -
  have c: "completion s = on_response env operation callback error data"
    using assms(2,3) by (rule run_completion)
  have t: "truthy error"
    using assms(4) by (rule status_truthy)
  show ?thesis
    using assms(1,4) t unfolding c
    by (cases operation) (simp_all add: response_defs)
qed

theorem not_found_per_operation_witness:
  "outcome_of (run
      \<lparr>makeRequest = (\<lambda>requestData options. (Some (JObj [(''status'', JNum 404)]), None)),
       JSON_parse = (\<lambda>v. Inl SyntaxError), toString = (\<lambda>v. [])\<rparr>
      (Some (JObj [(''host'', JStr ''https://api.connector.mbed.com'')]))
      (DeleteResourceSubscription (Some (JStr ''dev1'')) (Some (JStr ''/3/0/1''))) None (Some (JFun 0)))
     = Inr (Called []) \<and>
   outcome_of (run
      \<lparr>makeRequest = (\<lambda>requestData options. (Some (JObj [(''status'', JNum 404)]), None)),
       JSON_parse = (\<lambda>v. Inl SyntaxError), toString = (\<lambda>v. [])\<rparr>
      (Some (JObj [(''host'', JStr ''https://api.connector.mbed.com'')]))
      (GetResourceSubscription (Some (JStr ''dev1'')) (Some (JStr ''/3/0/1''))) None (Some (JFun 0)))
     = Inr (Called [Some JNull, Some (JBool False)]) \<and>
   outcome_of (run
      \<lparr>makeRequest = (\<lambda>requestData options. (Some (JObj [(''status'', JNum 404)]), None)),
       JSON_parse = (\<lambda>v. Inl SyntaxError), toString = (\<lambda>v. [])\<rparr>
      (Some (JObj [(''host'', JStr ''https://api.connector.mbed.com'')]))
      (DeleteEndpointSubscriptions (Some (JStr ''dev1''))) None (Some (JFun 0)))
     = Inr (Called [Some JNull, Some (JBool False)]) \<and>
   outcome_of (run
      \<lparr>makeRequest = (\<lambda>requestData options. (Some (JObj [(''status'', JNum 404)]), None)),
       JSON_parse = (\<lambda>v. Inl SyntaxError), toString = (\<lambda>v. [])\<rparr>
      (Some (JObj [(''host'', JStr ''https://api.connector.mbed.com'')]))
      (GetEndpointSubscriptions (Some (JStr ''dev1''))) None (Some (JFun 0)))
     = Inr (Called [Some JNull, Some (JArr [])]) \<and>
   outcome_of (run
      \<lparr>makeRequest = (\<lambda>requestData options. (Some (JObj [(''status'', JNum 404)]), None)),
       JSON_parse = (\<lambda>v. Inl SyntaxError), toString = (\<lambda>v. [])\<rparr>
      (Some (JObj [(''host'', JStr ''https://api.connector.mbed.com'')]))
      (PutResourceSubscription (Some (JStr ''dev1'')) (Some (JStr ''/3/0/1''))) None (Some (JFun 0)))
     = Inr (Called [Some (JObj [(''status'', JNum 404)])]) \<and>
   outcome_of (run
      \<lparr>makeRequest = (\<lambda>requestData options. (Some (JObj [(''status'', JNum 404)]), None)),
       JSON_parse = (\<lambda>v. Inl SyntaxError), toString = (\<lambda>v. [])\<rparr>
      (Some (JObj [(''host'', JStr ''https://api.connector.mbed.com'')]))
      DeleteAllSubscriptions None (Some (JFun 0)))
     = Inr (Called [Some (JObj [(''status'', JNum 404)])])"
proof -
  let ?enva = "\<lparr>makeRequest = (\<lambda>requestData options. (Some (JObj [(''status'', JNum 404)]), None)),
       JSON_parse = (\<lambda>v. Inl SyntaxError), toString = (\<lambda>v. [])\<rparr>"
  let ?sa = "send ?enva (deleteResourceSubscription_request (merge_options (Some (JObj [(''host'', JStr ''https://api.connector.mbed.com'')])) None) (Some (JStr ''dev1'')) (Some (JStr ''/3/0/1'')))
      (merge_options (Some (JObj [(''host'', JStr ''https://api.connector.mbed.com'')])) None) (deleteResourceSubscription_response (Some (JFun 0)))"
  have ra: "run ?enva (Some (JObj [(''host'', JStr ''https://api.connector.mbed.com'')])) (DeleteResourceSubscription (Some (JStr ''dev1'')) (Some (JStr ''/3/0/1''))) None (Some (JFun 0)) = Inr ?sa"
    by (simp add: deleteResourceSubscription_def Let_def)
  let ?envb = "\<lparr>makeRequest = (\<lambda>requestData options. (Some (JObj [(''status'', JNum 404)]), None)),
       JSON_parse = (\<lambda>v. Inl SyntaxError), toString = (\<lambda>v. [])\<rparr>"
  let ?sb = "send ?envb (getResourceSubscription_request (merge_options (Some (JObj [(''host'', JStr ''https://api.connector.mbed.com'')])) None) (Some (JStr ''dev1'')) (Some (JStr ''/3/0/1'')))
      (merge_options (Some (JObj [(''host'', JStr ''https://api.connector.mbed.com'')])) None) (getResourceSubscription_response (Some (JFun 0)))"
  have rb: "run ?envb (Some (JObj [(''host'', JStr ''https://api.connector.mbed.com'')])) (GetResourceSubscription (Some (JStr ''dev1'')) (Some (JStr ''/3/0/1''))) None (Some (JFun 0)) = Inr ?sb"
    by (simp add: getResourceSubscription_def Let_def)
  let ?envc = "\<lparr>makeRequest = (\<lambda>requestData options. (Some (JObj [(''status'', JNum 404)]), None)),
       JSON_parse = (\<lambda>v. Inl SyntaxError), toString = (\<lambda>v. [])\<rparr>"
  let ?sc = "send ?envc (deleteEndpointSubscriptions_request (merge_options (Some (JObj [(''host'', JStr ''https://api.connector.mbed.com'')])) None) (Some (JStr ''dev1'')))
      (merge_options (Some (JObj [(''host'', JStr ''https://api.connector.mbed.com'')])) None) (deleteEndpointSubscriptions_response (Some (JFun 0)))"
  have rc: "run ?envc (Some (JObj [(''host'', JStr ''https://api.connector.mbed.com'')])) (DeleteEndpointSubscriptions (Some (JStr ''dev1''))) None (Some (JFun 0)) = Inr ?sc"
    by (simp add: deleteEndpointSubscriptions_def Let_def)
  let ?envd = "\<lparr>makeRequest = (\<lambda>requestData options. (Some (JObj [(''status'', JNum 404)]), None)),
       JSON_parse = (\<lambda>v. Inl SyntaxError), toString = (\<lambda>v. [])\<rparr>"
  let ?sd = "send ?envd (getEndpointSubscriptions_request (merge_options (Some (JObj [(''host'', JStr ''https://api.connector.mbed.com'')])) None) (Some (JStr ''dev1'')))
      (merge_options (Some (JObj [(''host'', JStr ''https://api.connector.mbed.com'')])) None) (getEndpointSubscriptions_response (Some (JFun 0)))"
  have rd: "run ?envd (Some (JObj [(''host'', JStr ''https://api.connector.mbed.com'')])) (GetEndpointSubscriptions (Some (JStr ''dev1''))) None (Some (JFun 0)) = Inr ?sd"
    by (simp add: getEndpointSubscriptions_def Let_def)
  let ?enve = "\<lparr>makeRequest = (\<lambda>requestData options. (Some (JObj [(''status'', JNum 404)]), None)),
       JSON_parse = (\<lambda>v. Inl SyntaxError), toString = (\<lambda>v. [])\<rparr>"
  let ?se = "send ?enve (putResourceSubscription_request (merge_options (Some (JObj [(''host'', JStr ''https://api.connector.mbed.com'')])) None) (Some (JStr ''dev1'')) (Some (JStr ''/3/0/1'')))
      (merge_options (Some (JObj [(''host'', JStr ''https://api.connector.mbed.com'')])) None) (putResourceSubscription_response (Some (JFun 0)))"
  have re: "run ?enve (Some (JObj [(''host'', JStr ''https://api.connector.mbed.com'')])) (PutResourceSubscription (Some (JStr ''dev1'')) (Some (JStr ''/3/0/1''))) None (Some (JFun 0)) = Inr ?se"
    by (simp add: putResourceSubscription_def Let_def)
  let ?envf = "\<lparr>makeRequest = (\<lambda>requestData options. (Some (JObj [(''status'', JNum 404)]), None)),
       JSON_parse = (\<lambda>v. Inl SyntaxError), toString = (\<lambda>v. [])\<rparr>"
  let ?sf = "send ?envf (deleteAllSubscriptions_request (merge_options (Some (JObj [(''host'', JStr ''https://api.connector.mbed.com'')])) None))
      (merge_options (Some (JObj [(''host'', JStr ''https://api.connector.mbed.com'')])) None) (deleteAllSubscriptions_response (Some (JFun 0)))"
  have rf: "run ?envf (Some (JObj [(''host'', JStr ''https://api.connector.mbed.com'')])) DeleteAllSubscriptions None (Some (JFun 0)) = Inr ?sf"
    by (simp add: deleteAllSubscriptions_def Let_def)
  have ta: "completion ?sa = Inr (Called [])"
    using not_found_per_operation[OF _ ra, where error = "Some (JObj [(''status'', JNum 404)])" and data = None]
    by (simp)
  have tb: "completion ?sb = Inr (Called [Some JNull, Some (JBool False)])"
    using not_found_per_operation[OF _ rb, where error = "Some (JObj [(''status'', JNum 404)])" and data = None]
    by (simp)
  have tc: "completion ?sc = Inr (Called [Some JNull, Some (JBool False)])"
    using not_found_per_operation[OF _ rc, where error = "Some (JObj [(''status'', JNum 404)])" and data = None]
    by (simp)
  have td: "completion ?sd = Inr (Called [Some JNull, Some (JArr [])])"
    using not_found_per_operation[OF _ rd, where error = "Some (JObj [(''status'', JNum 404)])" and data = None]
    by (simp)
  have te: "completion ?se = Inr (Called [Some (JObj [(''status'', JNum 404)])])"
    using not_found_per_operation[OF _ re, where error = "Some (JObj [(''status'', JNum 404)])" and data = None]
    by (simp)
  have tf: "completion ?sf = Inr (Called [Some (JObj [(''status'', JNum 404)])])"
    using not_found_per_operation[OF _ rf, where error = "Some (JObj [(''status'', JNum 404)])" and data = None]
    by (simp)
  show ?thesis
    unfolding ra rb rc rd re rf
    using ta tb tc td te tf by simp
qed

text \<open>
  C3 as stated fails: \<open>deleteResourceSubscription\<close> and \<open>deleteEndpointSubscriptions\<close> do not
  pass a 404 on; the callback gets no error.
\<close>

theorem delete_404_reported_as_success:
  "outcome_of (deleteResourceSubscription
      \<lparr>makeRequest = (\<lambda>requestData options. (Some (JObj [(''status'', JNum 404)]), None)),
       JSON_parse = (\<lambda>v. Inl SyntaxError), toString = (\<lambda>v. [])\<rparr>
      (Some (JObj [(''host'', JStr ''https://api.connector.mbed.com'')])) (Some (JStr ''dev1'')) (Some (JStr ''/3/0/1'')) None (Some (JFun 0)))
     = Inr (Called []) \<and>
   outcome_of (deleteEndpointSubscriptions
      \<lparr>makeRequest = (\<lambda>requestData options. (Some (JObj [(''status'', JNum 404)]), None)),
       JSON_parse = (\<lambda>v. Inl SyntaxError), toString = (\<lambda>v. [])\<rparr>
      (Some (JObj [(''host'', JStr ''https://api.connector.mbed.com'')])) (Some (JStr ''dev1'')) None (Some (JFun 0)))
     = Inr (Called [Some JNull, Some (JBool False)])"
  by (simp add: deleteResourceSubscription_def deleteEndpointSubscriptions_def Let_def send_fields
      deleteResourceSubscription_response_def deleteEndpointSubscriptions_response_def)

text \<open>
  C3, amended.  With a callback that is a function, every operation that does not test for
  a 404 passes any error of \<open>makeRequest\<close>, a 404 included, to the callback as the error.
  \<open>deleteResourceSubscription\<close> and \<open>deleteEndpointSubscriptions\<close> pass an error on when its
  status is not 404, and report a 404 as success: \<open>callback()\<close> and \<open>callback(null, false)\<close>.
\<close>

theorem errors_surfaced_unless_404_tested:
  assumes "typeof callback = ''function''"
    and "run env this_options operation options callback = Inr s"
    and "makeRequest env (sent_request s) (JObj (sent_options s)) = (error, data)"
    and "truthy error"
  shows "(\<not> handles_404 operation \<longrightarrow> completion s = Inr (Called [error])) \<and>
         ((\<exists>endpoint resource. operation = DeleteResourceSubscription endpoint resource) \<longrightarrow>
            completion s =
              (if get_prop error ''status'' = Inr (Some (JNum 404)) then Inr (Called [])
               else Inr (Called [error]))) \<and>
         ((\<exists>endpoint. operation = DeleteEndpointSubscriptions endpoint) \<longrightarrow>
            completion s =
              (if get_prop error ''status'' = Inr (Some (JNum 404))
               then Inr (Called [Some JNull, Some (JBool False)])
               else Inr (Called [error])))"
proof -
  have c: "completion s = on_response env operation callback error data"
    using assms(2,3) by (rule run_completion)
  obtain status where st: "get_prop error ''status'' = Inr status"
    using truthy_get_prop[OF assms(4)] by blast
  show ?thesis
    using assms(1,4) st unfolding c
    by (cases operation) (simp_all add: response_defs)
qed

theorem errors_surfaced_unless_404_tested_witness:
  "outcome_of (run
      \<lparr>makeRequest = (\<lambda>requestData options. (Some (JObj [(''status'', JNum 404)]), None)),
       JSON_parse = (\<lambda>v. Inl SyntaxError), toString = (\<lambda>v. [])\<rparr>
      (Some (JObj [(''host'', JStr ''https://api.connector.mbed.com'')]))
      (PutResourceSubscription (Some (JStr ''dev1'')) (Some (JStr ''/3/0/1''))) None (Some (JFun 0)))
     = Inr (Called [Some (JObj [(''status'', JNum 404)])]) \<and>
   outcome_of (run
      \<lparr>makeRequest = (\<lambda>requestData options. (Some (JObj [(''status'', JNum 404)]), None)),
       JSON_parse = (\<lambda>v. Inl SyntaxError), toString = (\<lambda>v. [])\<rparr>
      (Some (JObj [(''host'', JStr ''https://api.connector.mbed.com'')]))
      (DeleteResourceSubscription (Some (JStr ''dev1'')) (Some (JStr ''/3/0/1''))) None (Some (JFun 0)))
     = Inr (Called []) \<and>
   outcome_of (run
      \<lparr>makeRequest = (\<lambda>requestData options. (Some (JObj [(''status'', JNum 500)]), None)),
       JSON_parse = (\<lambda>v. Inl SyntaxError), toString = (\<lambda>v. [])\<rparr>
      (Some (JObj [(''host'', JStr ''https://api.connector.mbed.com'')]))
      (DeleteResourceSubscription (Some (JStr ''dev1'')) (Some (JStr ''/3/0/1''))) None (Some (JFun 0)))
     = Inr (Called [Some (JObj [(''status'', JNum 500)])]) \<and>
   outcome_of (run
      \<lparr>makeRequest = (\<lambda>requestData options. (Some (JObj [(''status'', JNum 404)]), None)),
       JSON_parse = (\<lambda>v. Inl SyntaxError), toString = (\<lambda>v. [])\<rparr>
      (Some (JObj [(''host'', JStr ''https://api.connector.mbed.com'')]))
      (DeleteEndpointSubscriptions (Some (JStr ''dev1''))) None (Some (JFun 0)))
     = Inr (Called [Some JNull, Some (JBool False)]) \<and>
   outcome_of (run
      \<lparr>makeRequest = (\<lambda>requestData options. (Some (JObj [(''status'', JNum 500)]), None)),
       JSON_parse = (\<lambda>v. Inl SyntaxError), toString = (\<lambda>v. [])\<rparr>
      (Some (JObj [(''host'', JStr ''https://api.connector.mbed.com'')]))
      (DeleteEndpointSubscriptions (Some (JStr ''dev1''))) None (Some (JFun 0)))
     = Inr (Called [Some (JObj [(''status'', JNum 500)])])"
proof -
  let ?enva = "\<lparr>makeRequest = (\<lambda>requestData options. (Some (JObj [(''status'', JNum 404)]), None)),
       JSON_parse = (\<lambda>v. Inl SyntaxError), toString = (\<lambda>v. [])\<rparr>"
  let ?sa = "send ?enva (putResourceSubscription_request (merge_options (Some (JObj [(''host'', JStr ''https://api.connector.mbed.com'')])) None) (Some (JStr ''dev1'')) (Some (JStr ''/3/0/1'')))
      (merge_options (Some (JObj [(''host'', JStr ''https://api.connector.mbed.com'')])) None) (putResourceSubscription_response (Some (JFun 0)))"
  have ra: "run ?enva (Some (JObj [(''host'', JStr ''https://api.connector.mbed.com'')])) (PutResourceSubscription (Some (JStr ''dev1'')) (Some (JStr ''/3/0/1''))) None (Some (JFun 0)) = Inr ?sa"
    by (simp add: putResourceSubscription_def Let_def)
  let ?envb = "\<lparr>makeRequest = (\<lambda>requestData options. (Some (JObj [(''status'', JNum 404)]), None)),
       JSON_parse = (\<lambda>v. Inl SyntaxError), toString = (\<lambda>v. [])\<rparr>"
  let ?sb = "send ?envb (deleteResourceSubscription_request (merge_options (Some (JObj [(''host'', JStr ''https://api.connector.mbed.com'')])) None) (Some (JStr ''dev1'')) (Some (JStr ''/3/0/1'')))
      (merge_options (Some (JObj [(''host'', JStr ''https://api.connector.mbed.com'')])) None) (deleteResourceSubscription_response (Some (JFun 0)))"
  have rb: "run ?envb (Some (JObj [(''host'', JStr ''https://api.connector.mbed.com'')])) (DeleteResourceSubscription (Some (JStr ''dev1'')) (Some (JStr ''/3/0/1''))) None (Some (JFun 0)) = Inr ?sb"
    by (simp add: deleteResourceSubscription_def Let_def)
  let ?envc = "\<lparr>makeRequest = (\<lambda>requestData options. (Some (JObj [(''status'', JNum 500)]), None)),
       JSON_parse = (\<lambda>v. Inl SyntaxError), toString = (\<lambda>v. [])\<rparr>"
  let ?sc = "send ?envc (deleteResourceSubscription_request (merge_options (Some (JObj [(''host'', JStr ''https://api.connector.mbed.com'')])) None) (Some (JStr ''dev1'')) (Some (JStr ''/3/0/1'')))
      (merge_options (Some (JObj [(''host'', JStr ''https://api.connector.mbed.com'')])) None) (deleteResourceSubscription_response (Some (JFun 0)))"
  have rc: "run ?envc (Some (JObj [(''host'', JStr ''https://api.connector.mbed.com'')])) (DeleteResourceSubscription (Some (JStr ''dev1'')) (Some (JStr ''/3/0/1''))) None (Some (JFun 0)) = Inr ?sc"
    by (simp add: deleteResourceSubscription_def Let_def)
  let ?envd = "\<lparr>makeRequest = (\<lambda>requestData options. (Some (JObj [(''status'', JNum 404)]), None)),
       JSON_parse = (\<lambda>v. Inl SyntaxError), toString = (\<lambda>v. [])\<rparr>"
  let ?sd = "send ?envd (deleteEndpointSubscriptions_request (merge_options (Some (JObj [(''host'', JStr ''https://api.connector.mbed.com'')])) None) (Some (JStr ''dev1'')))
      (merge_options (Some (JObj [(''host'', JStr ''https://api.connector.mbed.com'')])) None) (deleteEndpointSubscriptions_response (Some (JFun 0)))"
  have rd: "run ?envd (Some (JObj [(''host'', JStr ''https://api.connector.mbed.com'')])) (DeleteEndpointSubscriptions (Some (JStr ''dev1''))) None (Some (JFun 0)) = Inr ?sd"
    by (simp add: deleteEndpointSubscriptions_def Let_def)
  let ?enve = "\<lparr>makeRequest = (\<lambda>requestData options. (Some (JObj [(''status'', JNum 500)]), None)),
       JSON_parse = (\<lambda>v. Inl SyntaxError), toString = (\<lambda>v. [])\<rparr>"
  let ?se = "send ?enve (deleteEndpointSubscriptions_request (merge_options (Some (JObj [(''host'', JStr ''https://api.connector.mbed.com'')])) None) (Some (JStr ''dev1'')))
      (merge_options (Some (JObj [(''host'', JStr ''https://api.connector.mbed.com'')])) None) (deleteEndpointSubscriptions_response (Some (JFun 0)))"
  have re: "run ?enve (Some (JObj [(''host'', JStr ''https://api.connector.mbed.com'')])) (DeleteEndpointSubscriptions (Some (JStr ''dev1''))) None (Some (JFun 0)) = Inr ?se"
    by (simp add: deleteEndpointSubscriptions_def Let_def)
  have ta: "completion ?sa = Inr (Called [Some (JObj [(''status'', JNum 404)])])"
    using errors_surfaced_unless_404_tested[OF _ ra, where error = "Some (JObj [(''status'', JNum 404)])" and data = None]
    by (simp)
  have tb: "completion ?sb = Inr (Called [])"
    using errors_surfaced_unless_404_tested[OF _ rb, where error = "Some (JObj [(''status'', JNum 404)])" and data = None]
    by (simp)
  have tc: "completion ?sc = Inr (Called [Some (JObj [(''status'', JNum 500)])])"
    using errors_surfaced_unless_404_tested[OF _ rc, where error = "Some (JObj [(''status'', JNum 500)])" and data = None]
    by (simp)
  have td: "completion ?sd = Inr (Called [Some JNull, Some (JBool False)])"
    using errors_surfaced_unless_404_tested[OF _ rd, where error = "Some (JObj [(''status'', JNum 404)])" and data = None]
    by (simp)
  have te: "completion ?se = Inr (Called [Some (JObj [(''status'', JNum 500)])])"
    using errors_surfaced_unless_404_tested[OF _ re, where error = "Some (JObj [(''status'', JNum 500)])" and data = None]
    by (simp)
  show ?thesis
    unfolding ra rb rc rd re
    using ta tb tc td te by simp
qed


section \<open>The list of subscriptions\<close>

lemma split_newline_nonempty: "split_newline s \<noteq> []"
  by (induction s) (auto split: list.splits)

lemma split_newline_join:
  "concat (map (\<lambda>piece. piece @ [CHR 0x0A]) (split_newline s)) = s @ [CHR 0x0A]"
  by (induction s) (auto split: list.splits)

lemma split_newline_pieces: "piece \<in> set (split_newline s) \<Longrightarrow> CHR 0x0A \<notin> set piece"
  by (induction s arbitrary: piece) (auto split: list.splits if_splits)

lemma trim_last_newline_snoc: "trim_last_newline (s @ [CHR 0x0A]) = s"
  by (simp add: trim_last_newline_def)

lemma trim_last_newline_other: "s = [] \<or> last s \<noteq> CHR 0x0A \<Longrightarrow> trim_last_newline s = s"
  by (auto simp: trim_last_newline_def)

text \<open>
  C9.  On a successful response of \<open>getEndpointSubscriptions\<close> whose payload is a string
  (callback a function), the callback receives \<open>null\<close> and the list \<open>pieces\<close>: the payload
  without one trailing newline, if it had one, split at the newlines (joining the pieces
  with newlines gives the trimmed payload back, and no piece holds a newline).  The list is
  never empty, and for the empty payload it is the one-element list of the empty string.
\<close>

theorem getEndpointSubscriptions_uri_list:
  assumes "typeof callback = ''function''"
    and "cfg = merge_options this_options options"
    and "makeRequest env (getEndpointSubscriptions_request cfg endpoint) (JObj cfg) = (error, data)"
    and "\<not> truthy error"
    and "get_prop data ''payload'' = Inr (Some (JStr payload))"
    and "pieces = split_newline (trim_last_newline payload)"
  shows "outcome_of (getEndpointSubscriptions env this_options endpoint options callback)
           = Inr (Called [Some JNull, Some (JArr (map JStr pieces))]) \<and>
         (\<forall>s. payload = s @ [CHR 0x0A] \<longrightarrow> trim_last_newline payload = s) \<and>
         (payload = [] \<or> last payload \<noteq> CHR 0x0A \<longrightarrow> trim_last_newline payload = payload) \<and>
         concat (map (\<lambda>piece. piece @ [CHR 0x0A]) pieces) = trim_last_newline payload @ [CHR 0x0A] \<and>
         (\<forall>piece \<in> set pieces. CHR 0x0A \<notin> set piece) \<and>
         pieces \<noteq> [] \<and>
         (payload = [] \<longrightarrow> pieces = [[]])"
proof -
  have "outcome_of (getEndpointSubscriptions env this_options endpoint options callback)
          = Inr (Called [Some JNull, Some (JArr (map JStr pieces))])"
    using assms
    by (simp add: getEndpointSubscriptions_def Let_def send_fields
        getEndpointSubscriptions_response_def)
  moreover have "\<forall>s. payload = s @ [CHR 0x0A] \<longrightarrow> trim_last_newline payload = s"
    by (simp add: trim_last_newline_snoc)
  moreover have "payload = [] \<or> last payload \<noteq> CHR 0x0A \<longrightarrow> trim_last_newline payload = payload"
    using trim_last_newline_other by blast
  moreover have "concat (map (\<lambda>piece. piece @ [CHR 0x0A]) pieces)
                   = trim_last_newline payload @ [CHR 0x0A]"
    unfolding assms(6) by (rule split_newline_join)
  moreover have "\<forall>piece \<in> set pieces. CHR 0x0A \<notin> set piece"
    unfolding assms(6) using split_newline_pieces by blast
  moreover have "pieces \<noteq> []"
    unfolding assms(6) by (rule split_newline_nonempty)
  moreover have "payload = [] \<longrightarrow> pieces = [[]]"
    unfolding assms(6) by (simp add: trim_last_newline_def)
  ultimately show ?thesis by blast
qed

theorem getEndpointSubscriptions_uri_list_witness:
  "outcome_of (getEndpointSubscriptions
      \<lparr>makeRequest = (\<lambda>requestData options.
          (Some JNull, Some (JObj [(''payload'', JStr (''/3/0/1'' @ [CHR 0x0A] @ ''/3/0/2'' @ [CHR 0x0A]))]))),
       JSON_parse = (\<lambda>v. Inl SyntaxError), toString = (\<lambda>v. [])\<rparr>
      (Some (JObj [(''host'', JStr ''https://api.connector.mbed.com'')]))
      (Some (JStr ''dev1'')) None (Some (JFun 0)))
     = Inr (Called [Some JNull, Some (JArr [JStr ''/3/0/1'', JStr ''/3/0/2''])]) \<and>
   outcome_of (getEndpointSubscriptions
      \<lparr>makeRequest = (\<lambda>requestData options. (Some JNull, Some (JObj [(''payload'', JStr [])]))),
       JSON_parse = (\<lambda>v. Inl SyntaxError), toString = (\<lambda>v. [])\<rparr>
      (Some (JObj [(''host'', JStr ''https://api.connector.mbed.com'')]))
      (Some (JStr ''dev1'')) None (Some (JFun 0)))
     = Inr (Called [Some JNull, Some (JArr [JStr []])])"
  using getEndpointSubscriptions_uri_list
    [where callback = "Some (JFun 0)"
       and this_options = "Some (JObj [(''host'', JStr ''https://api.connector.mbed.com'')])"
       and options = None and endpoint = "Some (JStr ''dev1'')"
       and env = "\<lparr>makeRequest = (\<lambda>requestData options.
          (Some JNull, Some (JObj [(''payload'', JStr (''/3/0/1'' @ [CHR 0x0A] @ ''/3/0/2'' @ [CHR 0x0A]))]))),
       JSON_parse = (\<lambda>v. Inl SyntaxError), toString = (\<lambda>v. [])\<rparr>"
       and error = "Some JNull"
       and data = "Some (JObj [(''payload'', JStr (''/3/0/1'' @ [CHR 0x0A] @ ''/3/0/2'' @ [CHR 0x0A]))])"
       and payload = "''/3/0/1'' @ [CHR 0x0A] @ ''/3/0/2'' @ [CHR 0x0A]"
       and pieces = "[''/3/0/1'', ''/3/0/2'']"]
    getEndpointSubscriptions_uri_list
    [where callback = "Some (JFun 0)"
       and this_options = "Some (JObj [(''host'', JStr ''https://api.connector.mbed.com'')])"
       and options = None and endpoint = "Some (JStr ''dev1'')"
       and env = "\<lparr>makeRequest = (\<lambda>requestData options. (Some JNull, Some (JObj [(''payload'', JStr [])]))),
       JSON_parse = (\<lambda>v. Inl SyntaxError), toString = (\<lambda>v. [])\<rparr>"
       and error = "Some JNull"
       and data = "Some (JObj [(''payload'', JStr [])])"
       and payload = "[]"
       and pieces = "[[]]"]
  by (simp add: trim_last_newline_def)


section \<open>The effective configuration\<close>

lemma map_of_set_prop: "map_of (set_prop ps name v) = (map_of ps)(name \<mapsto> v)"
  by (induction ps name v rule: set_prop.induct) auto








lemma merge_options_unfold:
  "merge_options this_options options =
     extend_props (extend_props [] (enumerable this_options)) (enumerable (or_empty options))"
  by (simp add: merge_options_def extend_deep_def)












section \<open>The string argument of \<open>getEndpoints\<close>\<close>

text \<open>
  C10.  \<open>getEndpoints\<close> called with a string as \<open>options\<close> behaves exactly as when called with
  \<open>{parameters: {type: <the string>}}\<close>, and the request it sends carries the string as the
  \<open>type\<close> query parameter.
\<close>

theorem getEndpoints_type_filter:
  "getEndpoints env this_options (Some (JStr s)) callback
     = getEndpoints env this_options
         (Some (JObj [(''parameters'', JObj [(''type'', JStr s)])])) callback \<and>
   (\<exists>sent params.
      getEndpoints env this_options (Some (JStr s)) callback = Inr sent \<and>
      qs (sent_request sent) = Some (JObj params) \<and>
      map_of params ''type'' = Some (JStr s))"
  by (simp add: getEndpoints_def getEndpoints_options_def Let_def send_fields
      getEndpoints_request_def merge_options_unfold or_empty_def map_of_set_prop)


section \<open>The store after an operation\<close>

lemma set_set_prop: "set (set_prop ps name v) \<subseteq> insert (name, v) (set ps)"
  by (induction ps name v rule: set_prop.induct) auto

lemma length_h_set [simp]: "length (h_set h a name v) = length h"
  by (simp add: h_set_def)

lemma kind_h_set [simp]: "kind (h_set h a name v ! b) = kind (h ! b)"
  by (cases "a = b") (auto simp: h_set_def)

lemma take_h_set: "n0 \<le> a \<Longrightarrow> take n0 (h_set h a name v) = take n0 h"
  by (simp add: h_set_def)

lemma props_h_set:
  "(k, w) \<in> set (props (h_set h a name v ! c)) \<Longrightarrow>
     (k, w) \<in> set (props (h ! c)) \<or> (c = a \<and> w = v)"
  using set_set_prop[of "props (h ! a)" name v]
  by (cases "c = a") (auto simp: h_set_def split: if_splits)

lemma fresh_closed_h_set:
  assumes "fresh_closed n0 h"
    and "\<And>b. v = HRef b \<Longrightarrow> n0 \<le> b \<or> (b < length h \<and> kind (h ! b) \<noteq> Plain \<and> kind (h ! b) \<noteq> Array)"
  shows "fresh_closed n0 (h_set h a name v)"
  unfolding fresh_closed_def
proof (intro allI impI)
  fix c k b
  assume *: "n0 \<le> c \<and> c < length (h_set h a name v) \<and>
             (k, HRef b) \<in> set (props (h_set h a name v ! c))"
  then consider "(k, HRef b) \<in> set (props (h ! c))" | "v = HRef b"
    using props_h_set[of k "HRef b" h a name v c] by auto
  then show "n0 \<le> b \<or> (b < length (h_set h a name v) \<and> kind (h_set h a name v ! b) \<noteq> Plain \<and> kind (h_set h a name v ! b) \<noteq> Array)"
  proof cases
    case 1
    with * assms(1) show ?thesis by (auto simp: fresh_closed_def)
  next
    case 2
    with assms(2) show ?thesis by auto
  qed
qed

lemma fresh_closed_alloc:
  assumes "fresh_closed n0 h"
  shows "fresh_closed n0 (h @ [\<lparr>kind = k, props = []\<rparr>])"
  unfolding fresh_closed_def
proof (intro allI impI)
  fix a name b
  assume *: "n0 \<le> a \<and> a < length (h @ [\<lparr>kind = k, props = []\<rparr>]) \<and>
             (name, HRef b) \<in> set (props ((h @ [\<lparr>kind = k, props = []\<rparr>]) ! a))"
  then have a: "a < length h" and m: "(name, HRef b) \<in> set (props (h ! a))"
    by (auto simp: nth_append split: if_splits)
  with * assms have "n0 \<le> b \<or> (b < length h \<and> kind (h ! b) \<noteq> Plain \<and> kind (h ! b) \<noteq> Array)"
    by (auto simp: fresh_closed_def)
  then show "n0 \<le> b \<or> (b < length (h @ [\<lparr>kind = k, props = []\<rparr>]) \<and>
               kind ((h @ [\<lparr>kind = k, props = []\<rparr>]) ! b) \<noteq> Plain \<and>
               kind ((h @ [\<lparr>kind = k, props = []\<rparr>]) ! b) \<noteq> Array)"
    by (auto simp: nth_append)
qed

lemma h_get_target_fresh:
  assumes "fresh_closed n0 h" "n0 \<le> target" "h_get h (HRef target) name = HRef b"
    "b < length h" "kind (h ! b) = Plain \<or> kind (h ! b) = Array"
  shows "n0 \<le> b"
proof -
  from assms(3) have t: "target < length h" and "map_of (props (h ! target)) name = Some (HRef b)"
    by (auto split: if_splits option.splits)
  then have "(name, HRef b) \<in> set (props (h ! target))"
    by (auto dest: map_of_SomeD)
  with assms t show ?thesis by (auto simp: fresh_closed_def)
qed

lemma h_clone_fresh:
  assumes "fresh_closed n0 h" "n0 \<le> target" "n0 \<le> length h" "k = Plain \<or> k = Array"
    "h_clone h k (h_get h (HRef target) name) = (h1, clone)"
  shows "n0 \<le> clone \<and> clone < length h1 \<and> length h \<le> length h1 \<and> take n0 h1 = take n0 h \<and> fresh_closed n0 h1"
proof (cases "\<exists>b. h_get h (HRef target) name = HRef b \<and> b < length h \<and> kind (h ! b) = k")
  case True
  then obtain b where b: "h_get h (HRef target) name = HRef b" "b < length h" "kind (h ! b) = k"
    by blast
  with assms(5) have "h1 = h" "clone = b" by auto
  moreover have "n0 \<le> b" using h_get_target_fresh[OF assms(1,2) b(1,2)] b(3) assms(4) by simp
  ultimately show ?thesis using assms(1) b(2) by simp
next
  case False
  then have "h_clone h k (h_get h (HRef target) name) = new_object h k []"
    by (cases "h_get h (HRef target) name") auto
  with assms(5) have "h1 = h @ [\<lparr>kind = k, props = []\<rparr>]" "clone = length h"
    by (auto simp: new_object_def)
  then show ?thesis using assms(1,3) fresh_closed_alloc by simp
qed

lemma h_extend_frame:
  assumes "fresh_closed n0 h" "n0 \<le> target" "n0 \<le> length h"
  shows "length h \<le> length (fst (h_extend fuel h target source names)) \<and>
         take n0 (fst (h_extend fuel h target source names)) = take n0 h \<and>
         fresh_closed n0 (fst (h_extend fuel h target source names))"
  using assms
proof (induction fuel h target source names rule: h_extend.induct)
  case (1 fuel h target source)
  then show ?case by simp
next
  case (2 fuel h target source name names)
  let ?src = "h_get h (HRef target) name"
  let ?copy = "h_get h source name"
  show ?case
  proof (cases "?copy = HRef target")
    case True
    then show ?thesis using 2 by simp
  next
    case nt: False
    show ?thesis
    proof (cases "is_kind h Plain ?copy \<or> is_kind h Array ?copy")
      case cont: True
      show ?thesis
      proof (cases fuel)
        case 0
        then show ?thesis using nt cont "2.prems" by simp
      next
        case (Suc fuel')
        let ?k = "if is_kind h Array ?copy then Array else Plain"
        obtain h1 clone where cl: "h_clone h ?k ?src = (h1, clone)" by fastforce
        obtain h2 ok where rec: "h_extend fuel' h1 clone ?copy (h_keys h1 ?copy) = (h2, ok)"
          by fastforce
        have c1: "n0 \<le> clone \<and> clone < length h1 \<and> length h \<le> length h1 \<and> take n0 h1 = take n0 h \<and> fresh_closed n0 h1"
          using h_clone_fresh[OF "2.prems"(1,2,3) _ cl] by simp
        have ih1: "length h1 \<le> length h2 \<and> take n0 h2 = take n0 h1 \<and> fresh_closed n0 h2"
          using "2.IH"(2)[OF refl refl nt cont Suc cl[symmetric]] c1 "2.prems" rec
          by simp
        show ?thesis
        proof (cases ok)
          case False
          then show ?thesis using nt cont Suc cl rec ih1 c1 by simp
        next
          case True
          let ?h3 = "h_set h2 target name (HRef clone)"
          have f3: "fresh_closed n0 ?h3"
            using fresh_closed_h_set[of n0 h2 "HRef clone" target name] ih1 c1 by simp
          have "length ?h3 \<le> length (fst (h_extend fuel ?h3 target source names)) \<and>
                take n0 (fst (h_extend fuel ?h3 target source names)) = take n0 ?h3 \<and>
                fresh_closed n0 (fst (h_extend fuel ?h3 target source names))"
            using "2.IH"(3)[OF refl refl nt cont Suc cl[symmetric] rec[symmetric] True f3 "2.prems"(2)]
              ih1 c1 "2.prems"(3) by simp
          then show ?thesis
            using nt cont Suc cl rec True ih1 c1 "2.prems"(2) by (simp add: take_h_set)
        qed
      qed
    next
      case nc: False
      show ?thesis
      proof (cases "?copy = HUndefined")
        case True
        then show ?thesis using 2 nt nc by simp
      next
        case def: False
        let ?h1 = "h_set h target name ?copy"
        have "\<And>b. ?copy = HRef b \<Longrightarrow> n0 \<le> b \<or> (b < length h \<and> kind (h ! b) \<noteq> Plain \<and> kind (h ! b) \<noteq> Array)"
        proof -
          fix b assume "?copy = HRef b"
          with nc have "\<not> (b < length h \<and> kind (h ! b) = Plain)" "\<not> (b < length h \<and> kind (h ! b) = Array)"
            by auto
          then show "n0 \<le> b \<or> (b < length h \<and> kind (h ! b) \<noteq> Plain \<and> kind (h ! b) \<noteq> Array)"
            using "2.prems"(3) by (cases "kind (h ! b)") auto
        qed
        then have f1: "fresh_closed n0 ?h1"
          using fresh_closed_h_set[OF "2.prems"(1)] by blast
        have "length ?h1 \<le> length (fst (h_extend fuel ?h1 target source names)) \<and>
              take n0 (fst (h_extend fuel ?h1 target source names)) = take n0 ?h1 \<and>
              fresh_closed n0 (fst (h_extend fuel ?h1 target source names))"
          using "2.IH"(4)[OF refl refl nt nc def f1 "2.prems"(2)] "2.prems"(3) by simp
        then show ?thesis
          using nt nc def "2.prems"(2) by (simp add: take_h_set)
      qed
    qed
  qed
qed

lemma frame_trans:
  assumes "length h \<le> length h1" "take (length h) h1 = h"
    and "length h1 \<le> length h2" "take (length h1) h2 = h1"
  shows "length h \<le> length h2 \<and> take (length h) h2 = h"
proof -
  have "take (length h) h2 = take (length h) (take (length h1) h2)"
    using assms(1) by (simp add: min_def)
  then show ?thesis using assms by simp
qed

lemma fresh_closed_start: "fresh_closed (length h) (h @ [\<lparr>kind = k, props = []\<rparr>])"
  by (auto simp: fresh_closed_def nth_append)

lemma h_merge_options_frame:
  "length h \<le> length (fst (h_merge_options fuel h this options)) \<and>
   take (length h) (fst (h_merge_options fuel h this options)) = h"
proof -
  let ?n = "length h"
  let ?h1 = "h @ [\<lparr>kind = Plain, props = []\<rparr>]"
  let ?d = "h_get ?h1 (HRef this) ''options''"
  obtain h2 opts where o: "(if h_truthy options then (?h1, options)
      else (case new_object ?h1 Plain [] of (h2, fresh) \<Rightarrow> (h2, HRef fresh))) = (h2, opts)"
    by fastforce
  have h2: "h2 = ?h1 \<or> h2 = ?h1 @ [\<lparr>kind = Plain, props = []\<rparr>]"
    using o by (auto simp: new_object_def split: if_splits)
  have f1: "fresh_closed ?n ?h1" by (rule fresh_closed_start)
  have f2: "fresh_closed ?n h2"
  proof (cases "h2 = ?h1")
    case True
    then show ?thesis using f1 by simp
  next
    case False
    then have "h2 = ?h1 @ [\<lparr>kind = Plain, props = []\<rparr>]" using h2 by blast
    then show ?thesis using fresh_closed_alloc[OF f1] by simp
  qed
  have l2: "?n < length h2" "take ?n h2 = h"
    using h2 by auto
  obtain h3 ok3 where e3: "h_extend fuel h2 ?n ?d (h_keys h2 ?d) = (h3, ok3)" by fastforce
  have p3: "length h2 \<le> length h3 \<and> take ?n h3 = take ?n h2 \<and> fresh_closed ?n h3"
    using h_extend_frame[OF f2, of ?n fuel ?d "h_keys h2 ?d"] l2 e3 by simp
  obtain h4 ok4 where e4: "h_extend fuel h3 ?n opts (h_keys h3 opts) = (h4, ok4)" by fastforce
  have p4: "length h3 \<le> length h4 \<and> take ?n h4 = take ?n h3 \<and> fresh_closed ?n h4"
    using h_extend_frame[of ?n h3 ?n fuel opts "h_keys h3 opts"] p3 l2 e4 by simp
  have "fst (h_merge_options fuel h this options) = (if ok3 then h4 else h3)"
    using o e3 e4 by (simp add: h_merge_options_def new_object_def Let_def)
  then show ?thesis using p3 p4 l2 by auto
qed

lemma h_request_frame:
  assumes "h_request urljoin h options verb path before accept after = (h', requestData)"
  shows "length h \<le> requestData \<and> length h \<le> length h' \<and> take (length h) h' = h"
  using assms
  by (cases accept) (auto simp: h_request_def new_object_def Let_def)

lemma h_makeRequest_frame:
  "length h \<le> length (fst (h_makeRequest h requestData options)) \<and>
   take (length h) (fst (h_makeRequest h requestData options)) = h"
  by (simp add: h_makeRequest_def new_object_def)

lemma h_prepare_frame:
  assumes "h_prepare urljoin fuel h this options verb path with_qs accept after = (h', r)"
  shows "length h \<le> length h' \<and> take (length h) h' = h \<and>
         (\<forall>requestData merged. r = Some (requestData, merged) \<longrightarrow> length h \<le> requestData)"
proof -
  obtain h1 m where m: "h_merge_options fuel h this options = (h1, m)" by fastforce
  have f1: "length h \<le> length h1" "take (length h) h1 = h"
    using h_merge_options_frame[of h fuel this options] m by simp_all
  show ?thesis
  proof (cases m)
    case None
    then show ?thesis using assms m f1 by (simp add: h_prepare_def)
  next
    case (Some merged)
    obtain h2 rd where q: "h_request urljoin h1 merged verb path
        (if with_qs then [(''qs'', h_get h1 merged ''parameters'')] else []) accept after = (h2, rd)"
      by fastforce
    have f2: "length h1 \<le> rd" "length h1 \<le> length h2" "take (length h1) h2 = h1"
      using h_request_frame[OF q] by simp_all
    have "h' = h2" "r = Some (rd, merged)"
      using assms m Some q by (simp_all add: h_prepare_def)
    then show ?thesis
      using frame_trans[OF f1 f2(2,3)] f1 f2 by simp
  qed
qed

lemma h_send_frame:
  "length h \<le> length (fst (h_send urljoin fuel h this options verb path with_qs accept after)) \<and>
   take (length h) (fst (h_send urljoin fuel h this options verb path with_qs accept after)) = h"
proof -
  obtain h1 r where p: "h_prepare urljoin fuel h this options verb path with_qs accept after = (h1, r)"
    by fastforce
  have f1: "length h \<le> length h1" "take (length h) h1 = h"
    using h_prepare_frame[OF p] by simp_all
  show ?thesis
  proof (cases r)
    case None
    then show ?thesis using p f1 by (simp add: h_send_def)
  next
    case (Some a)
    obtain rd merged where a: "a = (rd, merged)" by (cases a)
    have "fst (h_send urljoin fuel h this options verb path with_qs accept after)
            = fst (h_makeRequest h1 rd merged)"
      using p Some a by (simp add: h_send_def)
    then show ?thesis
      using frame_trans[OF f1] h_makeRequest_frame[of h1 rd merged] by simp
  qed
qed

lemma h_prepare_then_set_frame:
  assumes "h_prepare urljoin fuel h this options verb path with_qs accept after = (h1, r)"
  shows "length h \<le> length (fst (case r of None \<Rightarrow> (h1, None)
            | Some (requestData, merged) \<Rightarrow>
                h_makeRequest (if c requestData merged then h_set h1 requestData name (v requestData merged) else h1)
                  requestData merged)) \<and>
         take (length h) (fst (case r of None \<Rightarrow> (h1, None)
            | Some (requestData, merged) \<Rightarrow>
                h_makeRequest (if c requestData merged then h_set h1 requestData name (v requestData merged) else h1)
                  requestData merged)) = h"
proof -
  have f1: "length h \<le> length h1" "take (length h) h1 = h"
    using h_prepare_frame[OF assms] by simp_all
  show ?thesis
  proof (cases r)
    case None
    then show ?thesis using f1 by simp
  next
    case (Some a)
    obtain rd merged where a: "a = (rd, merged)" by (cases a)
    have rd: "length h \<le> rd"
      using h_prepare_frame[OF assms] Some a by simp
    let ?h2 = "if c rd merged then h_set h1 rd name (v rd merged) else h1"
    have f2: "length h \<le> length ?h2" "take (length h) ?h2 = h"
      using f1 rd by (simp_all add: take_h_set)
    have "length ?h2 \<le> length (fst (h_makeRequest ?h2 rd merged)) \<and>
          take (length ?h2) (fst (h_makeRequest ?h2 rd merged)) = ?h2"
      by (rule h_makeRequest_frame)
    then show ?thesis
      using frame_trans[OF f2] Some a by simp
  qed
qed

lemma h_run_frame:
  "length h \<le> length (fst (h_run urljoin to_string fuel h this operation options)) \<and>
   take (length h) (fst (h_run urljoin to_string fuel h this operation options)) = h"
proof (cases operation)
  case GetEndpoints
  let ?h0 = "if h_typeof h options = ''string''
             then h @ [\<lparr>kind = Plain, props = [(''type'', options)]\<rparr>,
                       \<lparr>kind = Plain, props = [(''parameters'', HRef (length h))]\<rparr>]
             else h"
  let ?o0 = "if h_typeof h options = ''string'' then HRef (Suc (length h)) else options"
  have f0: "length h \<le> length ?h0" "take (length h) ?h0 = h" by simp_all
  obtain h1 r where p: "h_prepare urljoin fuel ?h0 this ?o0 ''GET'' [HStr ''endpoints''] False
      (Some ''application/json'') [] = (h1, r)" by fastforce
  have "fst (h_run urljoin to_string fuel h this GetEndpoints options) =
        fst (case r of None \<Rightarrow> (h1, None)
            | Some (requestData, merged) \<Rightarrow>
                h_makeRequest (if h_truthy (h_get h1 merged ''parameters'')
                   then h_set h1 requestData ''qs'' (h_get h1 merged ''parameters'') else h1)
                  requestData merged)"
    using p by (auto simp: new_object_def split: option.splits)
  then show ?thesis
    using frame_trans[OF f0]
      h_prepare_then_set_frame[OF p, of "\<lambda>rd m. h_truthy (h_get h1 m ''parameters'')" "''qs''"
        "\<lambda>rd m. h_get h1 m ''parameters''"]
    unfolding GetEndpoints by simp
next
  case (PutResourceValue endpoint resource val)
  show ?thesis
  proof (cases "h_endpoint_name h endpoint")
    case None
    then show ?thesis unfolding PutResourceValue by simp
  next
    case (Some e)
    obtain h1 m where m: "h_merge_options fuel h this options = (h1, m)" by fastforce
    have f1: "length h \<le> length h1" "take (length h) h1 = h"
      using h_merge_options_frame[of h fuel this options] m by simp_all
    show ?thesis
    proof (cases "m = None \<or> val = HUndefined \<or> val = HNull")
      case True
      then show ?thesis
        unfolding PutResourceValue using Some m f1 by (auto split: option.splits)
    next
      case False
      then obtain merged where mm: "m = Some merged" by auto
      obtain h2 rd where q: "h_request urljoin h1 merged ''PUT'' [HStr ''endpoints'', e, resource]
          [(''qs'', h_get h1 merged ''parameters'')] (Some ''application/json'')
          [(''body'', HStr (to_string h1 val))] = (h2, rd)" by fastforce
      have f2: "length h1 \<le> length h2" "take (length h1) h2 = h1"
        using h_request_frame[OF q] by simp_all
      have f3: "length h \<le> length h2" "take (length h) h2 = h"
        using frame_trans[OF f1 f2] by simp_all
      have "fst (h_run urljoin to_string fuel h this (PutResourceValue endpoint resource val) options)
              = fst (h_makeRequest h2 rd merged)"
        using Some m mm q False by simp
      then show ?thesis
        unfolding PutResourceValue
        using frame_trans[OF f3] h_makeRequest_frame[of h2 rd merged] by simp
    qed
  qed
next
  case (PostResource endpoint resource val)
  show ?thesis
  proof (cases "h_endpoint_name h endpoint")
    case None
    then show ?thesis unfolding PostResource by simp
  next
    case (Some e)
    obtain h1 r where p: "h_prepare urljoin fuel h this options ''POST''
        [HStr ''endpoints'', e, resource] True (Some ''application/json'') [] = (h1, r)"
      by fastforce
    have "fst (h_run urljoin to_string fuel h this (PostResource endpoint resource val) options) =
          fst (case r of None \<Rightarrow> (h1, None)
            | Some (requestData, merged) \<Rightarrow>
                h_makeRequest (if h_truthy val
                   then h_set h1 requestData ''body'' (HStr (to_string h1 val)) else h1)
                  requestData merged)"
      using p Some by (auto split: option.splits)
    then show ?thesis
      using h_prepare_then_set_frame[OF p, of "\<lambda>rd m. h_truthy val" "''body''"
          "\<lambda>rd m. HStr (to_string h1 val)"]
      unfolding PostResource by simp
  qed
qed (auto simp: h_send_frame split: option.splits)


text \<open>
  C8.  No operation changes an object that existed when it was called: up to its call of
  \<open>makeRequest\<close>, and also when it ends early, the store it leaves is the old store followed
  by new objects.  So \<open>this.options\<close> is the same reference before and after, to an unchanged
  object.
\<close>

theorem operations_leave_store:
  "take (length h) (fst (h_run urljoin to_string fuel h this operation options)) = h \<and>
   length h \<le> length (fst (h_run urljoin to_string fuel h this operation options)) \<and>
   (this < length h \<longrightarrow>
      h_get (fst (h_run urljoin to_string fuel h this operation options)) (HRef this) ''options''
        = h_get h (HRef this) ''options'')"
proof -
  let ?h' = "fst (h_run urljoin to_string fuel h this operation options)"
  have f: "length h \<le> length ?h'" "take (length h) ?h' = h"
    using h_run_frame[of h urljoin to_string fuel this operation options] by simp_all
  have "?h' ! this = h ! this" if "this < length h"
    using that f(2) nth_take[of this "length h" ?h'] by simp
  then show ?thesis
    using f by simp
qed

theorem operations_leave_store_witness:
  "h_run (\<lambda>args. ''url'') (\<lambda>h v. ''1'') 2
      [\<lparr>kind = Other, props = [(''options'', HRef 1)]\<rparr>,
       \<lparr>kind = Plain, props = [(''host'', HStr ''api''), (''parameters'', HRef 2)]\<rparr>,
       \<lparr>kind = Plain, props = [(''cacheOnly'', HBool True)]\<rparr>,
       \<lparr>kind = Plain, props = [(''parameters'', HRef 4)]\<rparr>,
       \<lparr>kind = Plain, props = [(''noResp'', HBool True)]\<rparr>]
      0 (GetResourceValue (HStr ''dev1'') (HStr ''/3/0/1'')) (HRef 3)
     = ([\<lparr>kind = Other, props = [(''options'', HRef 1)]\<rparr>,
       \<lparr>kind = Plain, props = [(''host'', HStr ''api''), (''parameters'', HRef 2)]\<rparr>,
       \<lparr>kind = Plain, props = [(''cacheOnly'', HBool True)]\<rparr>,
       \<lparr>kind = Plain, props = [(''parameters'', HRef 4)]\<rparr>,
       \<lparr>kind = Plain, props = [(''noResp'', HBool True)]\<rparr>] @
      [\<lparr>kind = Plain, props = [(''host'', HStr ''api''), (''parameters'', HRef 6)]\<rparr>,
       \<lparr>kind = Plain, props = [(''cacheOnly'', HBool True), (''noResp'', HBool True)]\<rparr>,
       \<lparr>kind = Plain, props = [(''accept'', HStr ''*/*'')]\<rparr>,
       \<lparr>kind = Plain, props = [(''method'', HStr ''GET''), (''url'', HStr ''url''),
          (''qs'', HRef 6), (''headers'', HRef 7)]\<rparr>,
       \<lparr>kind = Function, props = []\<rparr>],
        Some (HRef 8, HRef 9, HRef 5)) \<and>
   h_get (fst (h_run (\<lambda>args. ''url'') (\<lambda>h v. ''1'') 2
      [\<lparr>kind = Other, props = [(''options'', HRef 1)]\<rparr>,
       \<lparr>kind = Plain, props = [(''host'', HStr ''api''), (''parameters'', HRef 2)]\<rparr>,
       \<lparr>kind = Plain, props = [(''cacheOnly'', HBool True)]\<rparr>,
       \<lparr>kind = Plain, props = [(''parameters'', HRef 4)]\<rparr>,
       \<lparr>kind = Plain, props = [(''noResp'', HBool True)]\<rparr>]
      0 (GetResourceValue (HStr ''dev1'') (HStr ''/3/0/1'')) (HRef 3))) (HRef 0) ''options'' = HRef 1 \<and>
   take 5 (fst (h_run (\<lambda>args. ''url'') (\<lambda>h v. ''1'') 2
      [\<lparr>kind = Other, props = [(''options'', HRef 1)]\<rparr>,
       \<lparr>kind = Plain, props = [(''host'', HStr ''api''), (''parameters'', HRef 2)]\<rparr>,
       \<lparr>kind = Plain, props = [(''cacheOnly'', HBool True)]\<rparr>,
       \<lparr>kind = Plain, props = [(''parameters'', HRef 4)]\<rparr>,
       \<lparr>kind = Plain, props = [(''noResp'', HBool True)]\<rparr>]
      0 (GetResourceValue (HStr ''dev1'') (HStr ''/3/0/1'')) (HRef 3))) =
      [\<lparr>kind = Other, props = [(''options'', HRef 1)]\<rparr>,
       \<lparr>kind = Plain, props = [(''host'', HStr ''api''), (''parameters'', HRef 2)]\<rparr>,
       \<lparr>kind = Plain, props = [(''cacheOnly'', HBool True)]\<rparr>,
       \<lparr>kind = Plain, props = [(''parameters'', HRef 4)]\<rparr>,
       \<lparr>kind = Plain, props = [(''noResp'', HBool True)]\<rparr>]"
proof -
  define h where "h = [\<lparr>kind = Other, props = [(''options'', HRef 1)]\<rparr>,
       \<lparr>kind = Plain, props = [(''host'', HStr ''api''), (''parameters'', HRef 2)]\<rparr>,
       \<lparr>kind = Plain, props = [(''cacheOnly'', HBool True)]\<rparr>,
       \<lparr>kind = Plain, props = [(''parameters'', HRef 4)]\<rparr>,
       \<lparr>kind = Plain, props = [(''noResp'', HBool True)]\<rparr>]"
  define r where "r = h_run (\<lambda>args. ''url'') (\<lambda>h v. ''1'') 2 h
      0 (GetResourceValue (HStr ''dev1'') (HStr ''/3/0/1'')) (HRef 3)"
  have "h_run (\<lambda>args. ''url'') (\<lambda>h v. ''1'') 2
      [\<lparr>kind = Other, props = [(''options'', HRef 1)]\<rparr>,
       \<lparr>kind = Plain, props = [(''host'', HStr ''api''), (''parameters'', HRef 2)]\<rparr>,
       \<lparr>kind = Plain, props = [(''cacheOnly'', HBool True)]\<rparr>,
       \<lparr>kind = Plain, props = [(''parameters'', HRef 4)]\<rparr>,
       \<lparr>kind = Plain, props = [(''noResp'', HBool True)]\<rparr>]
      0 (GetResourceValue (HStr ''dev1'') (HStr ''/3/0/1'')) (HRef 3)
     = ([\<lparr>kind = Other, props = [(''options'', HRef 1)]\<rparr>,
       \<lparr>kind = Plain, props = [(''host'', HStr ''api''), (''parameters'', HRef 2)]\<rparr>,
       \<lparr>kind = Plain, props = [(''cacheOnly'', HBool True)]\<rparr>,
       \<lparr>kind = Plain, props = [(''parameters'', HRef 4)]\<rparr>,
       \<lparr>kind = Plain, props = [(''noResp'', HBool True)]\<rparr>] @
      [\<lparr>kind = Plain, props = [(''host'', HStr ''api''), (''parameters'', HRef 6)]\<rparr>,
       \<lparr>kind = Plain, props = [(''cacheOnly'', HBool True), (''noResp'', HBool True)]\<rparr>,
       \<lparr>kind = Plain, props = [(''accept'', HStr ''*/*'')]\<rparr>,
       \<lparr>kind = Plain, props = [(''method'', HStr ''GET''), (''url'', HStr ''url''),
          (''qs'', HRef 6), (''headers'', HRef 7)]\<rparr>,
       \<lparr>kind = Function, props = []\<rparr>],
        Some (HRef 8, HRef 9, HRef 5))"
    by code_simp
  then have e: "r = (h @
      [\<lparr>kind = Plain, props = [(''host'', HStr ''api''), (''parameters'', HRef 6)]\<rparr>,
       \<lparr>kind = Plain, props = [(''cacheOnly'', HBool True), (''noResp'', HBool True)]\<rparr>,
       \<lparr>kind = Plain, props = [(''accept'', HStr ''*/*'')]\<rparr>,
       \<lparr>kind = Plain, props = [(''method'', HStr ''GET''), (''url'', HStr ''url''),
          (''qs'', HRef 6), (''headers'', HRef 7)]\<rparr>,
       \<lparr>kind = Function, props = []\<rparr>],
        Some (HRef 8, HRef 9, HRef 5))"
    unfolding r_def h_def by simp
  have l: "length h = 5" "h_get h (HRef 0) ''options'' = HRef 1"
    unfolding h_def by simp_all
  have "take (length h) (fst r) = h \<and> length h \<le> length (fst r) \<and>
        (0 < length h \<longrightarrow> h_get (fst r) (HRef 0) ''options'' = h_get h (HRef 0) ''options'')"
    unfolding r_def by (rule operations_leave_store)
  then have t: "h_get (fst r) (HRef 0) ''options'' = HRef 1" "take 5 (fst r) = h"
    using l by simp_all
  show ?thesis
    using e t unfolding r_def h_def by blast
qed

end
